theory Spec2Isabelle
  imports Main
begin

section \<open>The verify-attestation command of cosign\<close>

text \<open>
  A shallow embedding of \<^verbatim>\<open>cmd/cosign/cli/verify/verify_attestation.go\<close>: the method
  \<^verbatim>\<open>(*VerifyAttestationCommand).Exec\<close> and \<^verbatim>\<open>checkSigstoreBundleUnsupportedOptions\<close>.
  Every call that leaves the file (registry, TUF, Rekor, key providers, the two policy
  engines, terminal output) is a field of a record \<open>world\<close> that fixes what the call
  returns, and is logged as an \<open>event\<close>, so that a run returns its result together with
  the ordered list of calls it made.
\<close>

subsection \<open>Errors\<close>

datatype err =
    ErrHelp
  | KeyParseError
  | ErrorsNew string
  | Errorf string
  | Wrapf string err
  | Collaborator string

text \<open>
  \<open>ErrHelp\<close> is \<^verbatim>\<open>flag.ErrHelp\<close>, \<open>KeyParseError\<close> is \<^verbatim>\<open>&options.KeyParseError{}\<close>,
  \<open>ErrorsNew m\<close> is \<^verbatim>\<open>errors.New(m)\<close>, \<open>Errorf m\<close> is \<^verbatim>\<open>fmt.Errorf\<close> with the formatted
  message \<open>m\<close>, \<open>Wrapf p e\<close> is \<^verbatim>\<open>fmt.Errorf("p: %w", e)\<close> and \<open>Collaborator m\<close> is an
  error value returned by a function outside the file.
\<close>

subsection \<open>Opaque data of the collaborators\<close>

type_synonym certificate = string
type_synonym cert_pool = "string list"
type_synonym verifier = string
type_synonym trusted_material = string
type_synonym pub_keys = string
type_synonym rekor_client = string
type_synonym registry_opts = string
type_synonym piv_key = string
type_synonym reference = string
type_synonym signature = string
type_synonym payload = string
type_synonym identity = string

datatype env_variable =
    VariableSigstoreCTLogPublicKeyFile
  | VariableSigstoreRootFile
  | VariableSigstoreRekorPublicKey
  | VariableSigstoreTSACertificateFile

datatype claim_verifier = IntotoSubjectClaimVerifier

record TSACertificates =
  LeafCert :: certificate
  RootCert :: cert_pool
  IntermediateCerts :: cert_pool

subsection \<open>The command and the check options\<close>

text \<open>
  The fields of \<^verbatim>\<open>VerifyAttestationCommand\<close>. \<open>RegistryOptions\<close> and \<open>CertVerifyOptions\<close>
  are the embedded structs, kept opaque; \<open>NewBundleFormat\<close> and \<open>TrustedRootPath\<close> are
  the two fields of the embedded \<^verbatim>\<open>options.CommonVerifyOptions\<close> that \<^verbatim>\<open>Exec\<close> reads.
\<close>

record VerifyAttestationCommand =
  RegistryOptions :: string
  CertVerifyOptions :: string
  NewBundleFormat :: bool
  TrustedRootPath :: string
  CheckClaims :: bool
  KeyRef :: string
  CertRef :: string
  CertGithubWorkflowTrigger :: string
  CertGithubWorkflowSha :: string
  CertGithubWorkflowName :: string
  CertGithubWorkflowRepository :: string
  CertGithubWorkflowRef :: string
  CAIntermediates :: string
  CARoots :: string
  CertChain :: string
  IgnoreSCT :: bool
  SCTRef :: string
  Sk :: bool
  Slot :: string
  Output :: string
  RekorURL :: string
  PredicateType :: string
  Policies :: "string list"
  LocalImage :: bool
  NameOptions :: "string list"
  Offline :: bool
  TSACertChainPath :: string
  IgnoreTlog :: bool
  MaxWorkers :: int
  UseSignedTimestamps :: bool

text \<open>
  The fields of \<^verbatim>\<open>cosign.CheckOpts\<close> that \<^verbatim>\<open>Exec\<close> writes; a nil pointer or interface is
  \<open>None\<close>, a nil slice is \<open>[]\<close>.
\<close>

record CheckOpts =
  co_RegistryClientOpts :: registry_opts
  co_CertGithubWorkflowTrigger :: string
  co_CertGithubWorkflowSha :: string
  co_CertGithubWorkflowName :: string
  co_CertGithubWorkflowRepository :: string
  co_CertGithubWorkflowRef :: string
  co_IgnoreSCT :: bool
  co_Identities :: "identity list"
  co_Offline :: bool
  co_IgnoreTlog :: bool
  co_MaxWorkers :: int
  co_UseSignedTimestamps :: bool
  co_NewBundleFormat :: bool
  co_TrustedMaterial :: "trusted_material option"
  co_ClaimVerifier :: "claim_verifier option"
  co_CTLogPubKeys :: "pub_keys option"
  co_TSACertificate :: "certificate option"
  co_TSARootCertificates :: cert_pool
  co_TSAIntermediateCertificates :: cert_pool
  co_RekorClient :: "rekor_client option"
  co_RekorPubKeys :: "pub_keys option"
  co_RootCerts :: "cert_pool option"
  co_IntermediateCerts :: "cert_pool option"
  co_SigVerifier :: "verifier option"
  co_SCT :: string

subsection \<open>The collaborators\<close>

text \<open>
  What each call out of the file returns. A Go function returning \<^verbatim>\<open>(T, error)\<close> whose
  error makes \<^verbatim>\<open>Exec\<close> return is a function into \<open>err + T\<close>. \<^verbatim>\<open>cosign.TrustedRoot\<close>, whose
  error \<^verbatim>\<open>Exec\<close> only logs, returns the pair as Go does; it is called up to twice, and the
  argument is the number of the call.
\<close>

record world =
  Identities :: "string \<Rightarrow> err + identity list"
  ClientOpts :: "string \<Rightarrow> err + registry_opts"
  TrustedRoot :: "nat \<Rightarrow> trusted_material option \<times> err option"
  Getenv :: "env_variable \<Rightarrow> string"
  NewTrustedRootFromPath :: "string \<Rightarrow> err + trusted_material"
  GetCTLogPubs :: "err + pub_keys"
  GetTSACerts :: "string \<Rightarrow> err + TSACertificates"
  NewClient :: "string \<Rightarrow> err + rekor_client"
  GetRekorPubs :: "err + pub_keys"
  loadCertsKeylessVerification ::
    "string \<Rightarrow> string \<Rightarrow> string \<Rightarrow> err + (cert_pool option \<times> cert_pool option)"
  PublicKeyFromKeyRef :: "string \<Rightarrow> err + verifier"
  GetKeyWithSlot :: "string \<Rightarrow> err + piv_key"
  sk_Verifier :: "piv_key \<Rightarrow> err + verifier"
  loadCertFromFileOrURL :: "string \<Rightarrow> err + certificate"
  GetRoots :: "err + cert_pool"
  GetIntermediates :: "err + cert_pool"
  ValidateAndUnpackCert :: "certificate \<Rightarrow> CheckOpts \<Rightarrow> err + verifier"
  loadCertChainFromFileOrURL :: "string \<Rightarrow> err + certificate list"
  ValidateAndUnpackCertWithChain ::
    "certificate \<Rightarrow> certificate list \<Rightarrow> CheckOpts \<Rightarrow> err + verifier"
  filepath_Clean :: "string \<Rightarrow> string"
  ReadFile :: "string \<Rightarrow> err + string"
  VerifyLocalImageAttestations :: "string \<Rightarrow> CheckOpts \<Rightarrow> err + (signature list \<times> bool)"
  ParseReference :: "string \<Rightarrow> string list \<Rightarrow> err + reference"
  VerifyImageAttestations :: "reference \<Rightarrow> CheckOpts \<Rightarrow> err + (signature list \<times> bool)"
  AttestationToPayloadJSON :: "string \<Rightarrow> signature \<Rightarrow> err + (payload \<times> string)"
  cue_ValidateJSON :: "payload \<Rightarrow> string list \<Rightarrow> err option"
  rego_ValidateJSON :: "payload \<Rightarrow> string list \<Rightarrow> err list"

datatype event =
    Call_Identities
  | Call_ClientOpts
  | Call_TrustedRoot
  | Warnf_TrustedRoot err
  | Call_NewTrustedRootFromPath string
  | Call_GetCTLogPubs
  | Call_GetTSACerts string
  | Call_NewClient string
  | Call_GetRekorPubs
  | Call_loadCertsKeylessVerification string string string
  | Call_PublicKeyFromKeyRef string
  | Call_GetKeyWithSlot string
  | Call_sk_Verifier
  | Call_loadCertFromFileOrURL string
  | Call_GetRoots
  | Call_GetIntermediates
  | Call_ValidateAndUnpackCert certificate
  | Call_loadCertChainFromFileOrURL string
  | Call_ValidateAndUnpackCertWithChain certificate
  | Call_ReadFile string
  | Call_VerifyLocalImageAttestations string
  | Call_ParseReference string
  | Call_VerifyImageAttestations reference
  | Call_AttestationToPayloadJSON string signature
  | Infof_CUE "string list"
  | Call_cue_ValidateJSON payload "string list"
  | Infof_Rego "string list"
  | Call_rego_ValidateJSON payload "string list"
  | Infof_NumErrors nat
  | Infof_Error err
  | PrintVerificationHeader string bool bool
  | PrintVerification "signature list"

subsection \<open>Results with a log of calls\<close>

type_synonym 'a io = "(err + 'a) \<times> event list"

definition ret :: "'a \<Rightarrow> 'a io" where
  "ret x = (Inr x, [])"

definition fail :: "err \<Rightarrow> 'a io" where
  "fail e = (Inl e, [])"

definition call :: "event \<Rightarrow> err + 'a \<Rightarrow> 'a io" where
  "call ev r = (r, [ev])"

definition emit :: "event list \<Rightarrow> unit io" where
  "emit evs = (Inr (), evs)"

text \<open>Sequencing: an error of the first step is returned at once, with the log so far.\<close>

definition bnd :: "'a io \<Rightarrow> ('a \<Rightarrow> 'b io) \<Rightarrow> 'b io" where
  "bnd m f =
     (case fst m of
        Inl e \<Rightarrow> (Inl e, snd m)
      | Inr x \<Rightarrow> (fst (f x), snd m @ snd (f x)))"

text \<open>\<^verbatim>\<open>fmt.Errorf("p: %w", err)\<close> on the error branch of a call.\<close>

definition wrap :: "string \<Rightarrow> err + 'a \<Rightarrow> err + 'a" where
  "wrap p r = (case r of Inl e \<Rightarrow> Inl (Wrapf p e) | Inr x \<Rightarrow> Inr x)"

subsection \<open>Library functions\<close>

text \<open>
  Modelled from the spec: \<^verbatim>\<open>options.NOf\<close> is not among the sources. The spec has an
  explicit key and a hardware key mutually exclusive ("selecting both is a configuration
  error"), and the guard is \<^verbatim>\<open>NOf(c.KeyRef, c.Sk) > 1\<close>: \<open>NOf\<close> counts its arguments that
  are set (not the zero value of their type). The argument list here holds, for each
  argument, whether it is set.
\<close>

definition NOf :: "bool list \<Rightarrow> nat" where
  "NOf args = length (filter (\<lambda>b. b) args)"

text \<open>
  Modelled from the spec: \<^verbatim>\<open>shouldVerifySCT\<close> and \<^verbatim>\<open>keylessVerification\<close> are not among the
  sources. The comment at the call says "Ignore Signed Certificate Timestamp if the flag
  is set or a key is provided", and the spec skips the check "when verifying by explicit
  key/hardware key, since there is no certificate".
\<close>

definition keylessVerification :: "string \<Rightarrow> bool \<Rightarrow> bool" where
  "keylessVerification keyRef sk = (if keyRef \<noteq> [] then False else if sk then False else True)"

definition shouldVerifySCT :: "bool \<Rightarrow> string \<Rightarrow> bool \<Rightarrow> bool" where
  "shouldVerifySCT ignoreSCT keyRef sk =
     (if keyRef \<noteq> [] then False else if sk then False else if ignoreSCT then False else True)"

text \<open>
  Go's \<^verbatim>\<open>filepath.Ext\<close> (Unix): scan from the end of the path up to the last separator;
  at the first dot return the suffix starting there, and the empty string if none.
\<close>

fun ExtScan :: "string \<Rightarrow> string \<Rightarrow> string" where
  "ExtScan [] suffix = []"
| "ExtScan (ch # front) suffix =
     (if ch = CHR ''/'' then []
      else if ch = CHR ''.'' then ch # suffix
      else ExtScan front (ch # suffix))"

definition Ext :: "string \<Rightarrow> string" where
  "Ext path = ExtScan (rev path) []"

text \<open>Go's \<^verbatim>\<open>strings.Join\<close>.\<close>

fun Join :: "string list \<Rightarrow> string \<Rightarrow> string" where
  "Join [] sep = []"
| "Join [x] sep = x"
| "Join (x # y # zs) sep = x @ sep @ Join (y # zs) sep"

text \<open>The verb \<^verbatim>\<open>%d\<close> of \<^verbatim>\<open>fmt\<close> on a length: the decimal digits.\<close>

definition digit :: "nat \<Rightarrow> char" where
  "digit d = ''0123456789'' ! d"

fun itoa :: "nat \<Rightarrow> string" where
  "itoa n = (if n < 10 then [digit n] else itoa (n div 10) @ [digit (n mod 10)])"

declare itoa.simps [simp del]

subsection \<open>checkSigstoreBundleUnsupportedOptions\<close>

definition checkSigstoreBundleUnsupportedOptions :: "VerifyAttestationCommand \<Rightarrow> err option" where
  "checkSigstoreBundleUnsupportedOptions c =
     (if CertRef c \<noteq> [] then
        Some (Errorf ''unsupported: certificate may not be provided using --certificate when using --new-bundle-format (cert must be in bundle)'')
      else if CertChain c \<noteq> [] then
        Some (Errorf ''unsupported: certificate chain may not be provided using --certificate-chain when using --new-bundle-format (cert must be in bundle)'')
      else if CARoots c \<noteq> [] \<or> CAIntermediates c \<noteq> [] then
        Some (Errorf ''unsupported: CA roots/intermediates must be provided using --trusted-root when using --new-bundle-format'')
      else if TSACertChainPath c \<noteq> [] then
        Some (Errorf ''unsupported: TSA certificate chain path may only be provided using --trusted-root when using --new-bundle-format'')
      else None)"

subsection \<open>Exec: resolving the check options (lines 84 to 289)\<close>

text \<open>Lines 89 to 95: the identities are computed only when no key reference is given.\<close>

definition resolveIdentities :: "world \<Rightarrow> VerifyAttestationCommand \<Rightarrow> identity list io" where
  "resolveIdentities w c =
     (if KeyRef c = [] then call Call_Identities (Identities w (CertVerifyOptions c))
      else ret [])"

text \<open>
  \<^verbatim>\<open>cosign.TrustedRoot()\<close> at lines 102 and 147: the returned value is kept whatever the
  error, which is only printed as a warning.
\<close>

definition fetchTrustedRoot :: "world \<Rightarrow> nat \<Rightarrow> trusted_material option io" where
  "fetchTrustedRoot w n =
     (case snd (TrustedRoot w n) of
        None \<Rightarrow> (Inr (fst (TrustedRoot w n)), [Call_TrustedRoot])
      | Some e \<Rightarrow> (Inr (fst (TrustedRoot w n)), [Call_TrustedRoot, Warnf_TrustedRoot e]))"

text \<open>The condition of lines 107 to 111, and the condition of lines 142 to 146.\<close>

definition explicitOverride :: "world \<Rightarrow> VerifyAttestationCommand \<Rightarrow> bool" where
  "explicitOverride w c \<longleftrightarrow>
     NOf [CertChain c \<noteq> [], CARoots c \<noteq> [], CAIntermediates c \<noteq> [], TSACertChainPath c \<noteq> []] > 0 \<or>
     Getenv w VariableSigstoreCTLogPublicKeyFile \<noteq> [] \<or>
     Getenv w VariableSigstoreRootFile \<noteq> [] \<or>
     Getenv w VariableSigstoreRekorPublicKey \<noteq> [] \<or>
     Getenv w VariableSigstoreTSACertificateFile \<noteq> []"

definition noExplicitOverride :: "world \<Rightarrow> VerifyAttestationCommand \<Rightarrow> bool" where
  "noExplicitOverride w c \<longleftrightarrow>
     NOf [CertChain c \<noteq> [], CARoots c \<noteq> [], CAIntermediates c \<noteq> [], TSACertChainPath c \<noteq> []] = 0 \<and>
     Getenv w VariableSigstoreCTLogPublicKeyFile = [] \<and>
     Getenv w VariableSigstoreRootFile = [] \<and>
     Getenv w VariableSigstoreRekorPublicKey = [] \<and>
     Getenv w VariableSigstoreTSACertificateFile = []"

text \<open>Lines 117 to 136: the literal, with the zero value in every field it does not name.\<close>

definition newCheckOpts ::
  "VerifyAttestationCommand \<Rightarrow> identity list \<Rightarrow> registry_opts \<Rightarrow> trusted_material option \<Rightarrow> CheckOpts"
where
  "newCheckOpts c identities ociremoteOpts trustedMaterial =
     \<lparr> co_RegistryClientOpts = ociremoteOpts,
       co_CertGithubWorkflowTrigger = CertGithubWorkflowTrigger c,
       co_CertGithubWorkflowSha = CertGithubWorkflowSha c,
       co_CertGithubWorkflowName = CertGithubWorkflowName c,
       co_CertGithubWorkflowRepository = CertGithubWorkflowRepository c,
       co_CertGithubWorkflowRef = CertGithubWorkflowRef c,
       co_IgnoreSCT = IgnoreSCT c,
       co_Identities = identities,
       co_Offline = Offline c,
       co_IgnoreTlog = IgnoreTlog c,
       co_MaxWorkers = MaxWorkers c,
       co_UseSignedTimestamps = (TSACertChainPath c \<noteq> [] \<or> UseSignedTimestamps c),
       co_NewBundleFormat = NewBundleFormat c,
       co_TrustedMaterial = trustedMaterial,
       co_ClaimVerifier = (if CheckClaims c then Some IntotoSubjectClaimVerifier else None),
       co_CTLogPubKeys = None,
       co_TSACertificate = None,
       co_TSARootCertificates = [],
       co_TSAIntermediateCertificates = [],
       co_RekorClient = None,
       co_RekorPubKeys = None,
       co_RootCerts = None,
       co_IntermediateCerts = None,
       co_SigVerifier = None,
       co_SCT = [] \<rparr>"

text \<open>Lines 137 to 151.\<close>

definition loadTrustedMaterial :: "world \<Rightarrow> VerifyAttestationCommand \<Rightarrow> CheckOpts \<Rightarrow> CheckOpts io" where
  "loadTrustedMaterial w c co =
     (if TrustedRootPath c \<noteq> [] then
        bnd (call (Call_NewTrustedRootFromPath (TrustedRootPath c))
               (wrap ''loading trusted root'' (NewTrustedRootFromPath w (TrustedRootPath c))))
          (\<lambda>tm. ret (co\<lparr>co_TrustedMaterial := Some tm\<rparr>))
      else if noExplicitOverride w c then
        bnd (fetchTrustedRoot w 1) (\<lambda>tm. ret (co\<lparr>co_TrustedMaterial := tm\<rparr>))
      else ret co)"

text \<open>Lines 153 to 160.\<close>

definition checkNewBundleFormat :: "VerifyAttestationCommand \<Rightarrow> CheckOpts \<Rightarrow> unit io" where
  "checkNewBundleFormat c co =
     (if NewBundleFormat c then
        (case checkSigstoreBundleUnsupportedOptions c of
           Some e \<Rightarrow> fail e
         | None \<Rightarrow>
             if co_TrustedMaterial co = None
             then fail (Errorf ''trusted root is required when using new bundle format'')
             else ret ())
      else ret ())"

text \<open>Lines 162 to 168.\<close>

definition loadCTLogPubKeys :: "world \<Rightarrow> VerifyAttestationCommand \<Rightarrow> CheckOpts \<Rightarrow> CheckOpts io" where
  "loadCTLogPubKeys w c co =
     (if co_TrustedMaterial co = None \<and> shouldVerifySCT (IgnoreSCT c) (KeyRef c) (Sk c)
         \<and> \<not> NewBundleFormat c then
        bnd (call Call_GetCTLogPubs (wrap ''getting ctlog public keys'' (GetCTLogPubs w)))
          (\<lambda>keys. ret (co\<lparr>co_CTLogPubKeys := Some keys\<rparr>))
      else ret co)"

text \<open>Lines 170 to 179.\<close>

definition loadTSACertificates :: "world \<Rightarrow> VerifyAttestationCommand \<Rightarrow> CheckOpts \<Rightarrow> CheckOpts io" where
  "loadTSACertificates w c co =
     (if co_UseSignedTimestamps co \<and> co_TrustedMaterial co = None \<and> \<not> NewBundleFormat c then
        bnd (call (Call_GetTSACerts (TSACertChainPath c))
               (wrap ''unable to load TSA certificates'' (GetTSACerts w (TSACertChainPath c))))
          (\<lambda>tsaCertificates.
             ret (co\<lparr>co_TSACertificate := Some (LeafCert tsaCertificates),
                     co_TSARootCertificates := RootCert tsaCertificates,
                     co_TSAIntermediateCertificates := IntermediateCerts tsaCertificates\<rparr>))
      else ret co)"

text \<open>Lines 181 to 197.\<close>

definition loadRekor :: "world \<Rightarrow> VerifyAttestationCommand \<Rightarrow> CheckOpts \<Rightarrow> CheckOpts io" where
  "loadRekor w c co =
     (if \<not> IgnoreTlog c \<and> \<not> co_NewBundleFormat co then
        bnd (if RekorURL c \<noteq> [] then
               bnd (call (Call_NewClient (RekorURL c))
                      (wrap ''creating Rekor client'' (NewClient w (RekorURL c))))
                 (\<lambda>rekorClient. ret (co\<lparr>co_RekorClient := Some rekorClient\<rparr>))
             else ret co)
          (\<lambda>co.
             if co_TrustedMaterial co = None then
               bnd (call Call_GetRekorPubs (wrap ''getting Rekor public keys'' (GetRekorPubs w)))
                 (\<lambda>keys. ret (co\<lparr>co_RekorPubKeys := Some keys\<rparr>))
             else ret co)
      else ret co)"

text \<open>
  Lines 199 to 203. Modelled from the spec: \<^verbatim>\<open>loadCertsKeylessVerification\<close> is not among
  the sources; by the comment at line 280 it loads the CA roots and possible intermediates
  into the root and intermediate certificates of the check options, and the spec's resolver
  falls back "to fetching individual root sets". The collaborator returns the two pools.
\<close>

definition loadKeyless :: "world \<Rightarrow> VerifyAttestationCommand \<Rightarrow> CheckOpts \<Rightarrow> CheckOpts io" where
  "loadKeyless w c co =
     (if co_TrustedMaterial co = None \<and> keylessVerification (KeyRef c) (Sk c) then
        bnd (call (Call_loadCertsKeylessVerification (CertChain c) (CARoots c) (CAIntermediates c))
               (loadCertsKeylessVerification w (CertChain c) (CARoots c) (CAIntermediates c)))
          (\<lambda>(roots, intermediates).
             ret (co\<lparr>co_RootCerts := roots, co_IntermediateCerts := intermediates\<rparr>))
      else ret co)"

text \<open>Lines 228 to 270: the case of a certificate reference.\<close>

definition loadCertRef :: "world \<Rightarrow> VerifyAttestationCommand \<Rightarrow> CheckOpts \<Rightarrow> CheckOpts io" where
  "loadCertRef w c co =
     (if NewBundleFormat c then
        fail (Errorf ''unsupported: certificate reference currently not supported with --new-bundle-format'')
      else
        bnd (call (Call_loadCertFromFileOrURL (CertRef c))
               (wrap ''loading certificate from reference'' (loadCertFromFileOrURL w (CertRef c))))
          (\<lambda>cert.
        bnd (if CertChain c = [] then
               bnd (if co_TrustedMaterial co = None then
                      bnd (call Call_GetRoots (wrap ''getting Fulcio roots'' (GetRoots w)))
                        (\<lambda>roots.
                      bnd (call Call_GetIntermediates
                             (wrap ''getting Fulcio intermediates'' (GetIntermediates w)))
                        (\<lambda>intermediates.
                      ret (co\<lparr>co_RootCerts := Some roots,
                              co_IntermediateCerts := Some intermediates\<rparr>)))
                    else ret co)
                 (\<lambda>co.
               bnd (call (Call_ValidateAndUnpackCert cert)
                      (wrap ''creating certificate verifier'' (ValidateAndUnpackCert w cert co)))
                 (\<lambda>v. ret (co\<lparr>co_SigVerifier := Some v\<rparr>)))
             else
               bnd (call (Call_loadCertChainFromFileOrURL (CertChain c))
                      (loadCertChainFromFileOrURL w (CertChain c)))
                 (\<lambda>chain.
               bnd (call (Call_ValidateAndUnpackCertWithChain cert)
                      (wrap ''creating certificate verifier''
                         (ValidateAndUnpackCertWithChain w cert chain co)))
                 (\<lambda>v. ret (co\<lparr>co_SigVerifier := Some v\<rparr>))))
          (\<lambda>co.
        if SCTRef c \<noteq> [] then
          bnd (call (Call_ReadFile (filepath_Clean w (SCTRef c)))
                 (wrap ''reading sct from file'' (ReadFile w (filepath_Clean w (SCTRef c)))))
            (\<lambda>sct. ret (co\<lparr>co_SCT := sct\<rparr>))
        else ret co)))"

text \<open>
  Lines 205 to 282: the switch. The deferred \<^verbatim>\<open>Close\<close> calls of the two hardware key
  branches run when \<^verbatim>\<open>Exec\<close> returns and are not part of the log.
\<close>

definition loadSigVerifier :: "world \<Rightarrow> VerifyAttestationCommand \<Rightarrow> CheckOpts \<Rightarrow> CheckOpts io" where
  "loadSigVerifier w c co =
     (if KeyRef c \<noteq> [] then
        bnd (call (Call_PublicKeyFromKeyRef (KeyRef c))
               (wrap ''loading public key'' (PublicKeyFromKeyRef w (KeyRef c))))
          (\<lambda>v. ret (co\<lparr>co_SigVerifier := Some v\<rparr>))
      else if Sk c then
        bnd (call (Call_GetKeyWithSlot (Slot c))
               (wrap ''opening piv token'' (GetKeyWithSlot w (Slot c))))
          (\<lambda>sk.
        bnd (call Call_sk_Verifier (wrap ''initializing piv token verifier'' (sk_Verifier w sk)))
          (\<lambda>v. ret (co\<lparr>co_SigVerifier := Some v\<rparr>)))
      else if CertRef c \<noteq> [] then loadCertRef w c co
      else if TrustedRootPath c \<noteq> [] then
        (if \<not> NewBundleFormat c then
           fail (Errorf ''unsupported: trusted root path currently only supported with --new-bundle-format'')
         else ret co)
      else if CARoots c \<noteq> [] then ret co
      else ret co)"

text \<open>
  Lines 84 to 289 together: the resolved check options and \<open>fulcioVerified\<close>, or the error
  that makes \<^verbatim>\<open>Exec\<close> return.
\<close>

definition resolveCheckOpts :: "world \<Rightarrow> VerifyAttestationCommand \<Rightarrow> (CheckOpts \<times> bool) io" where
  "resolveCheckOpts w c =
     (if NOf [KeyRef c \<noteq> [], Sk c] > 1 then fail KeyParseError
      else
        bnd (resolveIdentities w c) (\<lambda>identities.
        bnd (call Call_ClientOpts
               (wrap ''constructing client options'' (ClientOpts w (RegistryOptions c))))
          (\<lambda>ociremoteOpts.
        bnd (fetchTrustedRoot w 0) (\<lambda>trustedMaterial.
        bnd (loadTrustedMaterial w c
               (newCheckOpts c identities ociremoteOpts
                  (if explicitOverride w c then None else trustedMaterial)))
          (\<lambda>co.
        bnd (checkNewBundleFormat c co) (\<lambda>_.
        bnd (loadCTLogPubKeys w c co) (\<lambda>co.
        bnd (loadTSACertificates w c co) (\<lambda>co.
        bnd (loadRekor w c co) (\<lambda>co.
        bnd (loadKeyless w c co) (\<lambda>co.
        bnd (loadSigVerifier w c co) (\<lambda>co.
        ret (co, co_SigVerifier co = None))))))))))))"

subsection \<open>Exec: the loop over the image references (lines 291 to 379)\<close>

text \<open>Lines 295 to 310: the verified attestations of one reference.\<close>

definition verifyAttestations ::
  "world \<Rightarrow> VerifyAttestationCommand \<Rightarrow> CheckOpts \<Rightarrow> string \<Rightarrow> (signature list \<times> bool) io"
where
  "verifyAttestations w c co imageRef =
     (if LocalImage c then
        call (Call_VerifyLocalImageAttestations imageRef) (VerifyLocalImageAttestations w imageRef co)
      else
        bnd (call (Call_ParseReference imageRef) (ParseReference w imageRef (NameOptions c)))
          (\<lambda>ref. call (Call_VerifyImageAttestations ref) (VerifyImageAttestations w ref co)))"

text \<open>Lines 312 to 323: the policies by extension, the pair being (cuePolicies, regoPolicies).\<close>

fun partitionPolicies ::
  "string list \<Rightarrow> string list \<times> string list \<Rightarrow> err + (string list \<times> string list)"
where
  "partitionPolicies [] (cuePolicies, regoPolicies) = Inr (cuePolicies, regoPolicies)"
| "partitionPolicies (policy # rest) (cuePolicies, regoPolicies) =
     (if Ext policy = ''.rego'' then partitionPolicies rest (cuePolicies, regoPolicies @ [policy])
      else if Ext policy = ''.cue'' then partitionPolicies rest (cuePolicies @ [policy], regoPolicies)
      else Inl (ErrorsNew ''invalid policy format, expected .cue or .rego''))"

text \<open>
  Lines 332 to 360: the body of the loop over the verified attestations. The state is
  (checked, validationErrors, checkedPredicateTypes).
\<close>

type_synonym gate_state = "signature list \<times> err list \<times> string list"

definition checkAttestation ::
  "world \<Rightarrow> string \<Rightarrow> string list \<Rightarrow> string list \<Rightarrow> signature \<Rightarrow> gate_state \<Rightarrow> gate_state io"
where
  "checkAttestation w predicateType cuePolicies regoPolicies vp st =
     (case st of (checked, validationErrors, checkedPredicateTypes) \<Rightarrow>
        bnd (call (Call_AttestationToPayloadJSON predicateType vp)
               (wrap ''converting to consumable policy validation''
                  (AttestationToPayloadJSON w predicateType vp)))
          (\<lambda>(payload, gotPredicateType).
             if length payload = 0 then
               ret (checked, validationErrors, checkedPredicateTypes @ [gotPredicateType])
             else
               bnd (if length cuePolicies > 0 then
                      (Inr (cue_ValidateJSON w payload cuePolicies),
                       [Infof_CUE cuePolicies, Call_cue_ValidateJSON payload cuePolicies])
                    else ret None)
                 (\<lambda>cueValidationErr.
                    case cueValidationErr of
                      Some e \<Rightarrow>
                        ret (checked, validationErrors @ [e],
                             checkedPredicateTypes @ [gotPredicateType])
                    | None \<Rightarrow>
                        bnd (if length regoPolicies > 0 then
                               (Inr (rego_ValidateJSON w payload regoPolicies),
                                [Infof_Rego regoPolicies, Call_rego_ValidateJSON payload regoPolicies])
                             else ret [])
                          (\<lambda>regoValidationErrs.
                             if length regoValidationErrs > 0 then
                               ret (checked, validationErrors @ regoValidationErrs,
                                    checkedPredicateTypes @ [gotPredicateType])
                             else
                               ret (checked @ [vp], validationErrors,
                                    checkedPredicateTypes @ [gotPredicateType])))))"

fun checkAttestations ::
  "world \<Rightarrow> string \<Rightarrow> string list \<Rightarrow> string list \<Rightarrow> signature list \<Rightarrow> gate_state \<Rightarrow> gate_state io"
where
  "checkAttestations w predicateType cuePolicies regoPolicies [] st = ret st"
| "checkAttestations w predicateType cuePolicies regoPolicies (vp # verified) st =
     bnd (checkAttestation w predicateType cuePolicies regoPolicies vp st)
       (checkAttestations w predicateType cuePolicies regoPolicies verified)"

text \<open>Lines 363 to 378: the outcome of the gate for one reference.\<close>

definition reportGate ::
  "VerifyAttestationCommand \<Rightarrow> string \<Rightarrow> bool \<Rightarrow> bool \<Rightarrow> gate_state \<Rightarrow> unit io"
where
  "reportGate c imageRef bundleVerified fulcioVerified st =
     (case st of (checked, validationErrors, checkedPredicateTypes) \<Rightarrow>
        if length validationErrors > 0 then
          (Inl (Errorf (itoa (length validationErrors) @ '' validation errors occurred'')),
           Infof_NumErrors (length validationErrors) # map Infof_Error validationErrors)
        else if length checked = 0 then
          fail (Errorf (''none of the attestations matched the predicate type: '' @ PredicateType c
                        @ '', found: '' @ Join checkedPredicateTypes '',''))
        else
          emit [PrintVerificationHeader imageRef bundleVerified fulcioVerified,
                PrintVerification checked])"

text \<open>Lines 292 to 378: the body of the loop over the image references.\<close>

definition verifyImage ::
  "world \<Rightarrow> VerifyAttestationCommand \<Rightarrow> CheckOpts \<Rightarrow> bool \<Rightarrow> string \<Rightarrow> unit io"
where
  "verifyImage w c co fulcioVerified imageRef =
     bnd (verifyAttestations w c co imageRef) (\<lambda>(verified, bundleVerified).
     bnd (partitionPolicies (Policies c) ([], []), []) (\<lambda>(cuePolicies, regoPolicies).
     bnd (checkAttestations w (PredicateType c) cuePolicies regoPolicies verified ([], [], []))
       (reportGate c imageRef bundleVerified fulcioVerified)))"

fun verifyImages ::
  "world \<Rightarrow> VerifyAttestationCommand \<Rightarrow> CheckOpts \<Rightarrow> bool \<Rightarrow> string list \<Rightarrow> unit io"
where
  "verifyImages w c co fulcioVerified [] = ret ()"
| "verifyImages w c co fulcioVerified (imageRef # images) =
     bnd (verifyImage w c co fulcioVerified imageRef)
       (\<lambda>_. verifyImages w c co fulcioVerified images)"

subsection \<open>Exec\<close>

definition Exec :: "world \<Rightarrow> VerifyAttestationCommand \<Rightarrow> string list \<Rightarrow> unit io" where
  "Exec w c images =
     (if length images = 0 then fail ErrHelp
      else
        bnd (resolveCheckOpts w c) (\<lambda>(co, fulcioVerified).
        verifyImages w c co fulcioVerified images))"

subsection \<open>A concrete command and concrete collaborators\<close>

text \<open>
  The command with every option at its zero value, and collaborators that all succeed:
  the attestation \<open>att-a\<close> has predicate type \<open>a\<close> and \<open>att-b\<close> has \<open>b\<close>, and an
  attestation yields a payload when no predicate type is requested or its own is.
\<close>

definition c0 :: VerifyAttestationCommand where
  "c0 = \<lparr> RegistryOptions = [], CertVerifyOptions = [], NewBundleFormat = False,
          TrustedRootPath = [], CheckClaims = False, KeyRef = [], CertRef = [],
          CertGithubWorkflowTrigger = [], CertGithubWorkflowSha = [],
          CertGithubWorkflowName = [], CertGithubWorkflowRepository = [],
          CertGithubWorkflowRef = [], CAIntermediates = [], CARoots = [], CertChain = [],
          IgnoreSCT = False, SCTRef = [], Sk = False, Slot = [], Output = [], RekorURL = [],
          PredicateType = [], Policies = [], LocalImage = False, NameOptions = [],
          Offline = False, TSACertChainPath = [], IgnoreTlog = False, MaxWorkers = 0,
          UseSignedTimestamps = False \<rparr>"

definition w0 :: world where
  "w0 = \<lparr> Identities = (\<lambda>_. Inr [''id'']),
          ClientOpts = (\<lambda>_. Inr ''opts''),
          TrustedRoot = (\<lambda>_. (Some ''tuf-bundle'', None)),
          Getenv = (\<lambda>_. []),
          NewTrustedRootFromPath = (\<lambda>p. Inr (''bundle-at-'' @ p)),
          GetCTLogPubs = Inr ''ctlog-keys-fetched'',
          GetTSACerts = (\<lambda>p. Inr \<lparr> LeafCert = ''tsa-leaf-of-'' @ p, RootCert = [''tsa-root-of-'' @ p],
                                    IntermediateCerts = [] \<rparr>),
          NewClient = (\<lambda>u. Inr u),
          GetRekorPubs = Inr ''rekor-keys-fetched'',
          loadCertsKeylessVerification = (\<lambda>_ _ _. Inr (Some [''fulcio-root''], Some [''fulcio-int''])),
          PublicKeyFromKeyRef = (\<lambda>k. Inr (''verifier-of-'' @ k)),
          GetKeyWithSlot = (\<lambda>_. Inr ''piv''),
          sk_Verifier = (\<lambda>_. Inr ''piv-verifier''),
          loadCertFromFileOrURL = (\<lambda>r. Inr r),
          GetRoots = Inr [''fulcio-root''],
          GetIntermediates = Inr [''fulcio-int''],
          ValidateAndUnpackCert = (\<lambda>cert _. Inr (''verifier-of-'' @ cert)),
          loadCertChainFromFileOrURL = (\<lambda>p. Inr [p]),
          ValidateAndUnpackCertWithChain = (\<lambda>cert _ _. Inr (''verifier-of-'' @ cert)),
          filepath_Clean = (\<lambda>p. p),
          ReadFile = (\<lambda>_. Inr ''sct''),
          VerifyLocalImageAttestations = (\<lambda>_ _. Inr ([''att-a'', ''att-b''], True)),
          ParseReference = (\<lambda>i _. Inr i),
          VerifyImageAttestations = (\<lambda>_ _. Inr ([''att-a'', ''att-b''], False)),
          AttestationToPayloadJSON =
            (\<lambda>pt vp. Inr (if pt = [] \<or> pt = drop 4 vp then ''payload-of-'' @ vp else [], drop 4 vp)),
          cue_ValidateJSON = (\<lambda>_ _. None),
          rego_ValidateJSON = (\<lambda>_ _. []) \<rparr>"

subsection \<open>Events of the loop over the image references\<close>

text \<open>The events that lines 291 to 379 log: everything done for an artifact.\<close>

definition artifactEvent :: "event \<Rightarrow> bool" where
  "artifactEvent ev =
     (case ev of
        Call_VerifyLocalImageAttestations _ \<Rightarrow> True
      | Call_ParseReference _ \<Rightarrow> True
      | Call_VerifyImageAttestations _ \<Rightarrow> True
      | Call_AttestationToPayloadJSON _ _ \<Rightarrow> True
      | Infof_CUE _ \<Rightarrow> True
      | Call_cue_ValidateJSON _ _ \<Rightarrow> True
      | Infof_Rego _ \<Rightarrow> True
      | Call_rego_ValidateJSON _ _ \<Rightarrow> True
      | Infof_NumErrors _ \<Rightarrow> True
      | Infof_Error _ \<Rightarrow> True
      | PrintVerificationHeader _ _ _ \<Rightarrow> True
      | PrintVerification _ \<Rightarrow> True
      | _ \<Rightarrow> False)"

subsection \<open>The policy gate, attestation by attestation\<close>

text \<open>
  What lines 331 to 361 do with one verified attestation, stated on its own for comparison
  with the loop: the payload it is matched on, whether it passes each engine, whether it
  is accepted, the validation errors it contributes, and the calls made for it.
\<close>

definition matchedPayload :: "world \<Rightarrow> string \<Rightarrow> signature \<Rightarrow> payload" where
  "matchedPayload w predicateType vp =
     (case AttestationToPayloadJSON w predicateType vp of
        Inl _ \<Rightarrow> []
      | Inr (payload, _) \<Rightarrow> payload)"

definition passesCUE :: "world \<Rightarrow> string list \<Rightarrow> payload \<Rightarrow> bool" where
  "passesCUE w cuePolicies payload \<longleftrightarrow>
     cuePolicies = [] \<or> cue_ValidateJSON w payload cuePolicies = None"

definition passesRego :: "world \<Rightarrow> string list \<Rightarrow> payload \<Rightarrow> bool" where
  "passesRego w regoPolicies payload \<longleftrightarrow>
     regoPolicies = [] \<or> rego_ValidateJSON w payload regoPolicies = []"

definition accepted :: "world \<Rightarrow> string \<Rightarrow> string list \<Rightarrow> string list \<Rightarrow> signature \<Rightarrow> bool" where
  "accepted w predicateType cuePolicies regoPolicies vp \<longleftrightarrow>
     matchedPayload w predicateType vp \<noteq> [] \<and>
     passesCUE w cuePolicies (matchedPayload w predicateType vp) \<and>
     passesRego w regoPolicies (matchedPayload w predicateType vp)"

definition violations :: "world \<Rightarrow> string \<Rightarrow> string list \<Rightarrow> string list \<Rightarrow> signature \<Rightarrow> err list" where
  "violations w predicateType cuePolicies regoPolicies vp =
     (let payload = matchedPayload w predicateType vp in
      if payload = [] then []
      else if \<not> passesCUE w cuePolicies payload then
        (case cue_ValidateJSON w payload cuePolicies of None \<Rightarrow> [] | Some e \<Rightarrow> [e])
      else if regoPolicies = [] then []
      else rego_ValidateJSON w payload regoPolicies)"

definition gateEvents :: "world \<Rightarrow> string \<Rightarrow> string list \<Rightarrow> string list \<Rightarrow> signature \<Rightarrow> event list" where
  "gateEvents w predicateType cuePolicies regoPolicies vp =
     (let payload = matchedPayload w predicateType vp in
      Call_AttestationToPayloadJSON predicateType vp #
      (if payload \<noteq> [] \<and> cuePolicies \<noteq> []
       then [Infof_CUE cuePolicies, Call_cue_ValidateJSON payload cuePolicies] else []) @
      (if payload \<noteq> [] \<and> passesCUE w cuePolicies payload \<and> regoPolicies \<noteq> []
       then [Infof_Rego regoPolicies, Call_rego_ValidateJSON payload regoPolicies] else []))"

text \<open>
  Collaborators for the policy gate: the CUE engine rejects the payload of \<open>att-a\<close> only,
  and the Rego engine rejects every payload.
\<close>

definition w1 :: world where
  "w1 = w0\<lparr> cue_ValidateJSON :=
               (\<lambda>p _. if p = ''payload-of-att-a''
                       then Some (Collaborator ''cue: att-a rejected'') else None),
             rego_ValidateJSON := (\<lambda>_ _. [Collaborator ''rego: denied'']) \<rparr>"

section \<open>Basic facts\<close>

subsection \<open>Sequencing\<close>

lemma bnd_Inl [simp]: "bnd (Inl e, tr) f = (Inl e, tr)" by (simp add: bnd_def)
lemma bnd_Inr [simp]: "bnd (Inr x, tr) f = (fst (f x), tr @ snd (f x))" by (simp add: bnd_def)
lemma bnd_ret [simp]: "bnd (ret x) f = f x" by (simp add: bnd_def ret_def)
lemma bnd_fail [simp]: "bnd (fail e) f = fail e" by (simp add: bnd_def fail_def)
lemma bnd_call_Inl [simp]: "bnd (call ev (Inl e)) f = (Inl e, [ev])" by (simp add: call_def)
lemma bnd_call_Inr [simp]: "bnd (call ev (Inr x)) f = (fst (f x), ev # snd (f x))" by (simp add: call_def)
lemma wrap_Inl [simp]: "wrap p (Inl e) = Inl (Wrapf p e)" by (simp add: wrap_def)
lemma wrap_Inr [simp]: "wrap p (Inr x) = Inr x" by (simp add: wrap_def)
lemma wrap_eq_Inr [simp]: "wrap p r = Inr x \<longleftrightarrow> r = Inr x" by (cases r) (simp_all add: wrap_def)
lemma fst_ret [simp]: "fst (ret x) = Inr x" by (simp add: ret_def)
lemma snd_ret [simp]: "snd (ret x) = []" by (simp add: ret_def)
lemma fst_fail [simp]: "fst (fail e) = Inl e" by (simp add: fail_def)
lemma snd_fail [simp]: "snd (fail e) = []" by (simp add: fail_def)
lemma fst_call [simp]: "fst (call ev r) = r" by (simp add: call_def)
lemma snd_call [simp]: "snd (call ev r) = [ev]" by (simp add: call_def)

lemma fst_bnd_Inr: "fst (bnd m f) = Inr y \<longleftrightarrow> (\<exists>x. fst m = Inr x \<and> fst (f x) = Inr y)"
  by (cases "fst m") (auto simp: bnd_def)

lemma isl_bnd_always: "(\<And>x. isl (fst (f x))) \<Longrightarrow> isl (fst (bnd m f))"
  by (cases "fst m") (auto simp: bnd_def)

lemma bnd_fails: "fst m = Inl e \<Longrightarrow> bnd m f = (Inl e, snd m)"
  by (simp add: bnd_def)

lemma bnd_succeeds: "fst m = Inr x \<Longrightarrow> bnd m f = (fst (f x), snd m @ snd (f x))"
  by (simp add: bnd_def)

lemma noExplicitOverride_iff: "noExplicitOverride w c \<longleftrightarrow> \<not> explicitOverride w c"
  by (auto simp: noExplicitOverride_def explicitOverride_def NOf_def)

text \<open>A successful resolution went through every step.\<close>

lemma resolveCheckOpts_InrD:
  assumes "fst (resolveCheckOpts w c) = Inr (co, fv)"
  shows "\<exists>identities opts co1 co2 co3 co4 co5.
     \<not> (KeyRef c \<noteq> [] \<and> Sk c) \<and>
     fst (resolveIdentities w c) = Inr identities \<and>
     ClientOpts w (RegistryOptions c) = Inr opts \<and>
     fst (loadTrustedMaterial w c (newCheckOpts c identities opts
            (if explicitOverride w c then None else fst (TrustedRoot w 0)))) = Inr co1 \<and>
     fst (checkNewBundleFormat c co1) = Inr () \<and>
     fst (loadCTLogPubKeys w c co1) = Inr co2 \<and>
     fst (loadTSACertificates w c co2) = Inr co3 \<and>
     fst (loadRekor w c co3) = Inr co4 \<and>
     fst (loadKeyless w c co4) = Inr co5 \<and>
     fst (loadSigVerifier w c co5) = Inr co \<and>
     fv = (co_SigVerifier co = None)"
proof -
  have nk: "\<not> (KeyRef c \<noteq> [] \<and> Sk c)"
    using assms by (auto simp: resolveCheckOpts_def NOf_def)
  then have "\<not> 1 < NOf [KeyRef c \<noteq> [], Sk c]" by (auto simp: NOf_def)
  with assms have "fst (bnd (resolveIdentities w c) (\<lambda>identities.
        bnd (call Call_ClientOpts
               (wrap ''constructing client options'' (ClientOpts w (RegistryOptions c))))
          (\<lambda>ociremoteOpts.
        bnd (fetchTrustedRoot w 0) (\<lambda>trustedMaterial.
        bnd (loadTrustedMaterial w c
               (newCheckOpts c identities ociremoteOpts
                  (if explicitOverride w c then None else trustedMaterial)))
          (\<lambda>co.
        bnd (checkNewBundleFormat c co) (\<lambda>_.
        bnd (loadCTLogPubKeys w c co) (\<lambda>co.
        bnd (loadTSACertificates w c co) (\<lambda>co.
        bnd (loadRekor w c co) (\<lambda>co.
        bnd (loadKeyless w c co) (\<lambda>co.
        bnd (loadSigVerifier w c co) (\<lambda>co.
        ret (co, co_SigVerifier co = None)))))))))))) = Inr (co, fv)"
    by (simp add: resolveCheckOpts_def)
  then show ?thesis using nk
    apply (simp only: fst_bnd_Inr)
    apply (elim exE conjE)
    apply (simp add: fetchTrustedRoot_def split: option.splits)
    apply (auto simp: fetchTrustedRoot_def split: option.splits)
    done
qed

subsection \<open>What each step of the resolution leaves unchanged\<close>

lemma loadTrustedMaterial_frame:
  assumes "fst (loadTrustedMaterial w c co) = Inr co'"
  shows "co_Identities co' = co_Identities co \<and> co_SigVerifier co' = co_SigVerifier co \<and>
         co_UseSignedTimestamps co' = co_UseSignedTimestamps co \<and>
         co_NewBundleFormat co' = co_NewBundleFormat co \<and>
         co_CTLogPubKeys co' = co_CTLogPubKeys co \<and>
         co_TSACertificate co' = co_TSACertificate co \<and>
         co_TSARootCertificates co' = co_TSARootCertificates co \<and>
         co_TSAIntermediateCertificates co' = co_TSAIntermediateCertificates co"
  using assms
  by (auto simp: loadTrustedMaterial_def fst_bnd_Inr fetchTrustedRoot_def split: if_splits option.splits)


lemma loadCTLogPubKeys_frame:
  assumes "fst (loadCTLogPubKeys w c co) = Inr co'"
  shows "co_Identities co' = co_Identities co \<and> co_SigVerifier co' = co_SigVerifier co \<and>
         co_UseSignedTimestamps co' = co_UseSignedTimestamps co \<and>
         co_NewBundleFormat co' = co_NewBundleFormat co \<and>
         co_TrustedMaterial co' = co_TrustedMaterial co \<and>
         co_TSACertificate co' = co_TSACertificate co \<and>
         co_TSARootCertificates co' = co_TSARootCertificates co \<and>
         co_TSAIntermediateCertificates co' = co_TSAIntermediateCertificates co"
  using assms
  by (auto simp: loadCTLogPubKeys_def fst_bnd_Inr split: if_splits)


lemma loadTSACertificates_frame:
  assumes "fst (loadTSACertificates w c co) = Inr co'"
  shows "co_Identities co' = co_Identities co \<and> co_SigVerifier co' = co_SigVerifier co \<and>
         co_UseSignedTimestamps co' = co_UseSignedTimestamps co \<and>
         co_NewBundleFormat co' = co_NewBundleFormat co \<and>
         co_TrustedMaterial co' = co_TrustedMaterial co \<and>
         co_CTLogPubKeys co' = co_CTLogPubKeys co"
  using assms
  by (auto simp: loadTSACertificates_def fst_bnd_Inr split: if_splits)


lemma loadRekor_frame:
  assumes "fst (loadRekor w c co) = Inr co'"
  shows "co_Identities co' = co_Identities co \<and> co_SigVerifier co' = co_SigVerifier co \<and>
         co_UseSignedTimestamps co' = co_UseSignedTimestamps co \<and>
         co_NewBundleFormat co' = co_NewBundleFormat co \<and>
         co_TrustedMaterial co' = co_TrustedMaterial co \<and>
         co_CTLogPubKeys co' = co_CTLogPubKeys co \<and>
         co_TSACertificate co' = co_TSACertificate co \<and>
         co_TSARootCertificates co' = co_TSARootCertificates co \<and>
         co_TSAIntermediateCertificates co' = co_TSAIntermediateCertificates co"
  using assms
  by (cases "NewClient w (RekorURL c)"; cases "GetRekorPubs w")
     (auto simp: loadRekor_def split: if_splits)

lemma loadKeyless_frame:
  assumes "fst (loadKeyless w c co) = Inr co'"
  shows "co_Identities co' = co_Identities co \<and> co_SigVerifier co' = co_SigVerifier co \<and>
         co_UseSignedTimestamps co' = co_UseSignedTimestamps co \<and>
         co_NewBundleFormat co' = co_NewBundleFormat co \<and>
         co_TrustedMaterial co' = co_TrustedMaterial co \<and>
         co_CTLogPubKeys co' = co_CTLogPubKeys co \<and>
         co_TSACertificate co' = co_TSACertificate co \<and>
         co_TSARootCertificates co' = co_TSARootCertificates co \<and>
         co_TSAIntermediateCertificates co' = co_TSAIntermediateCertificates co"
  using assms
  by (auto simp: loadKeyless_def fst_bnd_Inr split: if_splits)

lemma loadCertRef_frame:
  assumes "fst (loadCertRef w c co) = Inr co'"
  shows "co_Identities co' = co_Identities co \<and> co_SigVerifier co' \<noteq> None \<and>
         co_UseSignedTimestamps co' = co_UseSignedTimestamps co \<and>
         co_NewBundleFormat co' = co_NewBundleFormat co \<and>
         co_TrustedMaterial co' = co_TrustedMaterial co \<and>
         co_CTLogPubKeys co' = co_CTLogPubKeys co \<and>
         co_TSACertificate co' = co_TSACertificate co \<and>
         co_TSARootCertificates co' = co_TSARootCertificates co \<and>
         co_TSAIntermediateCertificates co' = co_TSAIntermediateCertificates co"
proof -
  from assms have nbf: "\<not> NewBundleFormat c" by (auto simp: loadCertRef_def split: if_splits)
  from assms nbf obtain cert where cert: "loadCertFromFileOrURL w (CertRef c) = Inr cert"
    by (cases "loadCertFromFileOrURL w (CertRef c)") (auto simp: loadCertRef_def)
  show ?thesis
  proof (cases "CertChain c = []")
    case True
    show ?thesis
    proof (cases "co_TrustedMaterial co = None")
      case tm: True
      then show ?thesis using assms nbf cert True
        by (cases "GetRoots w"; cases "GetIntermediates w";
            cases "ValidateAndUnpackCert w cert (co\<lparr>co_RootCerts := Some (projr (GetRoots w)), co_IntermediateCerts := Some (projr (GetIntermediates w))\<rparr>)";
            cases "ReadFile w (filepath_Clean w (SCTRef c))")
           (auto simp: loadCertRef_def split: if_splits)
    next
      case tm: False
      then show ?thesis using assms nbf cert True
        by (cases "ValidateAndUnpackCert w cert co";
            cases "ReadFile w (filepath_Clean w (SCTRef c))")
           (auto simp: loadCertRef_def split: if_splits)
    qed
  next
    case False
    then show ?thesis using assms nbf cert
      by (cases "loadCertChainFromFileOrURL w (CertChain c)";
          cases "ValidateAndUnpackCertWithChain w cert (projr (loadCertChainFromFileOrURL w (CertChain c))) co";
          cases "ReadFile w (filepath_Clean w (SCTRef c))")
         (auto simp: loadCertRef_def split: if_splits)
  qed
qed

lemma loadSigVerifier_frame:
  assumes "fst (loadSigVerifier w c co) = Inr co'"
  shows "co_Identities co' = co_Identities co \<and>
         co_UseSignedTimestamps co' = co_UseSignedTimestamps co \<and>
         co_NewBundleFormat co' = co_NewBundleFormat co \<and>
         co_TrustedMaterial co' = co_TrustedMaterial co \<and>
         co_CTLogPubKeys co' = co_CTLogPubKeys co \<and>
         co_TSACertificate co' = co_TSACertificate co \<and>
         co_TSARootCertificates co' = co_TSARootCertificates co \<and>
         co_TSAIntermediateCertificates co' = co_TSAIntermediateCertificates co"
  using assms loadCertRef_frame [of w c co co']
  by (cases "PublicKeyFromKeyRef w (KeyRef c)"; cases "GetKeyWithSlot w (Slot c)";
      cases "sk_Verifier w (projr (GetKeyWithSlot w (Slot c)))")
     (auto simp: loadSigVerifier_def split: if_splits)

lemma loadSigVerifier_verifier:
  assumes "fst (loadSigVerifier w c co) = Inr co'" "co_SigVerifier co = None"
  shows "(co_SigVerifier co' = None) = (KeyRef c = [] \<and> \<not> Sk c \<and> CertRef c = [])"
  using assms loadCertRef_frame [of w c co co']
  by (cases "PublicKeyFromKeyRef w (KeyRef c)"; cases "GetKeyWithSlot w (Slot c)";
      cases "sk_Verifier w (projr (GetKeyWithSlot w (Slot c)))")
     (auto simp: loadSigVerifier_def split: if_splits)

subsection \<open>The workflow attributes pass through every step\<close>

lemma loadTrustedMaterial_workflow:
  assumes "fst (loadTrustedMaterial w c co) = Inr co'"
  shows "co_CertGithubWorkflowTrigger co' = co_CertGithubWorkflowTrigger co \<and>
         co_CertGithubWorkflowSha co' = co_CertGithubWorkflowSha co \<and>
         co_CertGithubWorkflowName co' = co_CertGithubWorkflowName co \<and>
         co_CertGithubWorkflowRepository co' = co_CertGithubWorkflowRepository co \<and>
         co_CertGithubWorkflowRef co' = co_CertGithubWorkflowRef co"
  using assms
  by (auto simp: loadTrustedMaterial_def fst_bnd_Inr fetchTrustedRoot_def split: if_splits option.splits)

lemma loadCTLogPubKeys_workflow:
  assumes "fst (loadCTLogPubKeys w c co) = Inr co'"
  shows "co_CertGithubWorkflowTrigger co' = co_CertGithubWorkflowTrigger co \<and>
         co_CertGithubWorkflowSha co' = co_CertGithubWorkflowSha co \<and>
         co_CertGithubWorkflowName co' = co_CertGithubWorkflowName co \<and>
         co_CertGithubWorkflowRepository co' = co_CertGithubWorkflowRepository co \<and>
         co_CertGithubWorkflowRef co' = co_CertGithubWorkflowRef co"
  using assms
  by (auto simp: loadCTLogPubKeys_def fst_bnd_Inr split: if_splits)

lemma loadTSACertificates_workflow:
  assumes "fst (loadTSACertificates w c co) = Inr co'"
  shows "co_CertGithubWorkflowTrigger co' = co_CertGithubWorkflowTrigger co \<and>
         co_CertGithubWorkflowSha co' = co_CertGithubWorkflowSha co \<and>
         co_CertGithubWorkflowName co' = co_CertGithubWorkflowName co \<and>
         co_CertGithubWorkflowRepository co' = co_CertGithubWorkflowRepository co \<and>
         co_CertGithubWorkflowRef co' = co_CertGithubWorkflowRef co"
  using assms
  by (auto simp: loadTSACertificates_def fst_bnd_Inr split: if_splits)

lemma loadRekor_workflow:
  assumes "fst (loadRekor w c co) = Inr co'"
  shows "co_CertGithubWorkflowTrigger co' = co_CertGithubWorkflowTrigger co \<and>
         co_CertGithubWorkflowSha co' = co_CertGithubWorkflowSha co \<and>
         co_CertGithubWorkflowName co' = co_CertGithubWorkflowName co \<and>
         co_CertGithubWorkflowRepository co' = co_CertGithubWorkflowRepository co \<and>
         co_CertGithubWorkflowRef co' = co_CertGithubWorkflowRef co"
  using assms
  by (cases "NewClient w (RekorURL c)"; cases "GetRekorPubs w")
     (auto simp: loadRekor_def split: if_splits)

lemma loadKeyless_workflow:
  assumes "fst (loadKeyless w c co) = Inr co'"
  shows "co_CertGithubWorkflowTrigger co' = co_CertGithubWorkflowTrigger co \<and>
         co_CertGithubWorkflowSha co' = co_CertGithubWorkflowSha co \<and>
         co_CertGithubWorkflowName co' = co_CertGithubWorkflowName co \<and>
         co_CertGithubWorkflowRepository co' = co_CertGithubWorkflowRepository co \<and>
         co_CertGithubWorkflowRef co' = co_CertGithubWorkflowRef co"
  using assms
  by (auto simp: loadKeyless_def fst_bnd_Inr split: if_splits)

lemma loadCertRef_workflow:
  assumes "fst (loadCertRef w c co) = Inr co'"
  shows "co_CertGithubWorkflowTrigger co' = co_CertGithubWorkflowTrigger co \<and>
         co_CertGithubWorkflowSha co' = co_CertGithubWorkflowSha co \<and>
         co_CertGithubWorkflowName co' = co_CertGithubWorkflowName co \<and>
         co_CertGithubWorkflowRepository co' = co_CertGithubWorkflowRepository co \<and>
         co_CertGithubWorkflowRef co' = co_CertGithubWorkflowRef co"
proof -
  from assms have nbf: "\<not> NewBundleFormat c" by (auto simp: loadCertRef_def split: if_splits)
  from assms nbf obtain cert where cert: "loadCertFromFileOrURL w (CertRef c) = Inr cert"
    by (cases "loadCertFromFileOrURL w (CertRef c)") (auto simp: loadCertRef_def)
  show ?thesis
  proof (cases "CertChain c = []")
    case True
    show ?thesis
    proof (cases "co_TrustedMaterial co = None")
      case tm: True
      then show ?thesis using assms nbf cert True
        by (cases "GetRoots w"; cases "GetIntermediates w";
            cases "ValidateAndUnpackCert w cert (co\<lparr>co_RootCerts := Some (projr (GetRoots w)), co_IntermediateCerts := Some (projr (GetIntermediates w))\<rparr>)";
            cases "ReadFile w (filepath_Clean w (SCTRef c))")
           (auto simp: loadCertRef_def split: if_splits)
    next
      case tm: False
      then show ?thesis using assms nbf cert True
        by (cases "ValidateAndUnpackCert w cert co";
            cases "ReadFile w (filepath_Clean w (SCTRef c))")
           (auto simp: loadCertRef_def split: if_splits)
    qed
  next
    case False
    then show ?thesis using assms nbf cert
      by (cases "loadCertChainFromFileOrURL w (CertChain c)";
          cases "ValidateAndUnpackCertWithChain w cert (projr (loadCertChainFromFileOrURL w (CertChain c))) co";
          cases "ReadFile w (filepath_Clean w (SCTRef c))")
         (auto simp: loadCertRef_def split: if_splits)
  qed
qed

lemma loadSigVerifier_workflow:
  assumes "fst (loadSigVerifier w c co) = Inr co'"
  shows "co_CertGithubWorkflowTrigger co' = co_CertGithubWorkflowTrigger co \<and>
         co_CertGithubWorkflowSha co' = co_CertGithubWorkflowSha co \<and>
         co_CertGithubWorkflowName co' = co_CertGithubWorkflowName co \<and>
         co_CertGithubWorkflowRepository co' = co_CertGithubWorkflowRepository co \<and>
         co_CertGithubWorkflowRef co' = co_CertGithubWorkflowRef co"
  using assms loadCertRef_workflow [of w c co co']
  by (cases "PublicKeyFromKeyRef w (KeyRef c)"; cases "GetKeyWithSlot w (Slot c)";
      cases "sk_Verifier w (projr (GetKeyWithSlot w (Slot c)))")
     (auto simp: loadSigVerifier_def split: if_splits)

text \<open>
  Lines 119 to 123: whatever the key reference is, a successful resolution hands the five
  workflow attributes of the command to the verification unchanged.
\<close>

lemma resolveCheckOpts_workflow:
  assumes ok: "fst (resolveCheckOpts w c) = Inr (co, fv)"
  shows "co_CertGithubWorkflowTrigger co = CertGithubWorkflowTrigger c \<and>
         co_CertGithubWorkflowSha co = CertGithubWorkflowSha c \<and>
         co_CertGithubWorkflowName co = CertGithubWorkflowName c \<and>
         co_CertGithubWorkflowRepository co = CertGithubWorkflowRepository c \<and>
         co_CertGithubWorkflowRef co = CertGithubWorkflowRef c"
proof -
  from resolveCheckOpts_InrD [OF ok] obtain identities opts co1 co2 co3 co4 co5 where
    s1: "fst (loadTrustedMaterial w c (newCheckOpts c identities opts
            (if explicitOverride w c then None else fst (TrustedRoot w 0)))) = Inr co1"
    and s3: "fst (loadCTLogPubKeys w c co1) = Inr co2"
    and s4: "fst (loadTSACertificates w c co2) = Inr co3"
    and s5: "fst (loadRekor w c co3) = Inr co4"
    and s6: "fst (loadKeyless w c co4) = Inr co5"
    and s7: "fst (loadSigVerifier w c co5) = Inr co"
    by blast
  show ?thesis
    using loadTrustedMaterial_workflow [OF s1] loadCTLogPubKeys_workflow [OF s3]
      loadTSACertificates_workflow [OF s4] loadRekor_workflow [OF s5]
      loadKeyless_workflow [OF s6] loadSigVerifier_workflow [OF s7]
    by (simp add: newCheckOpts_def)
qed

lemmas resolve_defs =
  resolveCheckOpts_def NOf_def resolveIdentities_def fetchTrustedRoot_def explicitOverride_def
  noExplicitOverride_def newCheckOpts_def loadTrustedMaterial_def checkNewBundleFormat_def
  checkSigstoreBundleUnsupportedOptions_def loadCTLogPubKeys_def loadTSACertificates_def
  loadRekor_def loadKeyless_def loadCertRef_def loadSigVerifier_def shouldVerifySCT_def
  keylessVerification_def

section \<open>Trust material: the bundle and explicit overrides\<close>





section \<open>What a run logs\<close>

lemma logs_bnd: "list_all P (snd m) \<Longrightarrow> (\<And>x. list_all P (snd (f x))) \<Longrightarrow> list_all P (snd (bnd m f))"
  by (cases "fst m") (auto simp: bnd_def)

lemma logs_if: "(b \<Longrightarrow> list_all P (snd x)) \<Longrightarrow> (\<not> b \<Longrightarrow> list_all P (snd y)) \<Longrightarrow> list_all P (snd (if b then x else y))"
  by simp

lemma logs_case_prod: "(\<And>a b. list_all P (snd (f a b))) \<Longrightarrow> list_all P (snd (case_prod f p))"
  by (cases p) simp

lemma logs_case_option: "list_all P (snd a) \<Longrightarrow> (\<And>x. list_all P (snd (f x))) \<Longrightarrow> list_all P (snd (case_option a f v))"
  by (cases v) simp_all

lemma isl_fst_bnd: "isl (fst (bnd m f)) \<longleftrightarrow> isl (fst m) \<or> (\<exists>x. fst m = Inr x \<and> isl (fst (f x)))"
  by (cases "fst m") (auto simp: bnd_def)

lemmas logs_intros = logs_bnd logs_if logs_case_prod logs_case_option

lemma resolveCheckOpts_no_artifact: "list_all (\<lambda>ev. \<not> artifactEvent ev) (snd (resolveCheckOpts w c))"
  unfolding resolveCheckOpts_def resolveIdentities_def fetchTrustedRoot_def loadTrustedMaterial_def
    checkNewBundleFormat_def loadCTLogPubKeys_def loadTSACertificates_def loadRekor_def
    loadKeyless_def loadCertRef_def loadSigVerifier_def
  by (intro logs_intros) (simp_all add: artifactEvent_def split: option.splits)

lemma resolveCheckOpts_keyed_no_Identities:
  "KeyRef c \<noteq> [] \<Longrightarrow> list_all (\<lambda>ev. ev \<noteq> Call_Identities) (snd (resolveCheckOpts w c))"
  unfolding resolveCheckOpts_def resolveIdentities_def fetchTrustedRoot_def loadTrustedMaterial_def
    checkNewBundleFormat_def loadCTLogPubKeys_def loadTSACertificates_def loadRekor_def
    loadKeyless_def loadCertRef_def loadSigVerifier_def
  by (intro logs_intros) (simp_all split: option.splits)

lemma checkAttestations_logs:
  assumes "\<And>pt vp. P (Call_AttestationToPayloadJSON pt vp)"
    "\<And>ps. P (Infof_CUE ps)" "\<And>p ps. P (Call_cue_ValidateJSON p ps)"
    "\<And>ps. P (Infof_Rego ps)" "\<And>p ps. P (Call_rego_ValidateJSON p ps)"
  shows "list_all P (snd (checkAttestations w pt cue rego verified st))"
proof (induction verified arbitrary: st)
  case Nil
  show ?case by simp
next
  case (Cons vp verified)
  have "list_all P (snd (checkAttestation w pt cue rego vp st))"
    unfolding checkAttestation_def
    by (intro logs_intros) (simp_all add: assms)
  then show ?case using Cons by (simp add: logs_bnd)
qed

lemma verifyImage_logs:
  assumes "\<And>pt vp. P (Call_AttestationToPayloadJSON pt vp)"
    "\<And>ps. P (Infof_CUE ps)" "\<And>p ps. P (Call_cue_ValidateJSON p ps)"
    "\<And>ps. P (Infof_Rego ps)" "\<And>p ps. P (Call_rego_ValidateJSON p ps)"
    "\<And>i. P (Call_VerifyLocalImageAttestations i)" "\<And>i. P (Call_ParseReference i)"
    "\<And>r. P (Call_VerifyImageAttestations r)" "\<And>n. P (Infof_NumErrors n)"
    "\<And>e. P (Infof_Error e)" "\<And>b. P (PrintVerificationHeader imageRef b fv)"
    "\<And>xs. P (PrintVerification xs)"
  shows "list_all P (snd (verifyImage w c co fv imageRef))"
  unfolding verifyImage_def verifyAttestations_def reportGate_def emit_def
  by (intro logs_intros checkAttestations_logs) (simp_all add: assms list_all_iff)

lemma verifyImages_logs:
  assumes "\<And>pt vp. P (Call_AttestationToPayloadJSON pt vp)"
    "\<And>ps. P (Infof_CUE ps)" "\<And>p ps. P (Call_cue_ValidateJSON p ps)"
    "\<And>ps. P (Infof_Rego ps)" "\<And>p ps. P (Call_rego_ValidateJSON p ps)"
    "\<And>i. P (Call_VerifyLocalImageAttestations i)" "\<And>i. P (Call_ParseReference i)"
    "\<And>r. P (Call_VerifyImageAttestations r)" "\<And>n. P (Infof_NumErrors n)"
    "\<And>e. P (Infof_Error e)" "\<And>i b. P (PrintVerificationHeader i b fv)"
    "\<And>xs. P (PrintVerification xs)"
  shows "list_all P (snd (verifyImages w c co fv images))"
proof (induction images)
  case Nil
  show ?case by simp
next
  case (Cons imageRef images)
  have "list_all P (snd (verifyImage w c co fv imageRef))"
    by (rule verifyImage_logs) (rule assms)+
  then show ?case using Cons by (simp add: logs_bnd)
qed

section \<open>Runs that end in the resolution\<close>

lemmas loop_defs =
  verifyAttestations_def checkAttestation_def reportGate_def verifyImage_def Exec_def emit_def
  Ext_def artifactEvent_def

lemma Exec_no_artifact_if_unresolved:
  assumes "isl (fst (resolveCheckOpts w c))"
  shows "list_all (\<lambda>ev. \<not> artifactEvent ev) (snd (Exec w c images))"
proof (cases "images = []")
  case True
  then show ?thesis by (simp add: Exec_def)
next
  case False
  from assms obtain e where "fst (resolveCheckOpts w c) = Inl e"
    by (cases "fst (resolveCheckOpts w c)") auto
  then have "Exec w c images = (Inl e, snd (resolveCheckOpts w c))"
    using False by (simp add: Exec_def bnd_fails)
  then show ?thesis using resolveCheckOpts_no_artifact [of w c] by simp
qed

lemma Exec_fails_if_unresolved:
  assumes "isl (fst (resolveCheckOpts w c))"
  shows "isl (fst (Exec w c images))"
  using assms by (auto simp: Exec_def isl_fst_bnd)

section \<open>Configuration errors of the resolution\<close>

text \<open>
  Claim C4. With both a key reference and a security key selected, the resolution returns
  the key-parse configuration error and has made no call at all, so no I/O has happened
  and no artifact has been touched. \<^verbatim>\<open>Exec\<close> returns that error for every non-empty list
  of references; with no reference at all the guard of line 80 returns the usage error
  first, also without any call.
\<close>

theorem C4_key_and_security_key:
  assumes "KeyRef c \<noteq> []" and "Sk c"
  shows "resolveCheckOpts w c = (Inl KeyParseError, []) \<and>
         Exec w c images = (Inl (if images = [] then ErrHelp else KeyParseError), [])"
  using assms by (simp add: resolveCheckOpts_def Exec_def NOf_def fail_def)

theorem C4_witness:
  "Exec w0 (c0\<lparr>KeyRef := ''cosign.pub'', Sk := True\<rparr>) [''img:v1''] = (Inl KeyParseError, [])"
  using C4_key_and_security_key [of "c0\<lparr>KeyRef := ''cosign.pub'', Sk := True\<rparr>" w0 "[''img:v1'']"]
  by simp

section \<open>Identities under an explicit key\<close>

text \<open>
  Claim C10, as amended. With a non-empty key reference \<^verbatim>\<open>c.Identities()\<close> is never called
  during the run, and every successful resolution hands the verification an empty identity
  list, whatever the identity options of the command are. The GitHub workflow attributes
  are not part of that list: all five are copied from the command into the check options
  unchanged, key reference or not.
\<close>

theorem C10_amended:
  assumes "KeyRef c \<noteq> []"
  shows "Call_Identities \<notin> set (snd (Exec w c images)) \<and>
         (\<forall>co fv. fst (resolveCheckOpts w c) = Inr (co, fv) \<longrightarrow>
            co_Identities co = [] \<and>
            co_CertGithubWorkflowTrigger co = CertGithubWorkflowTrigger c \<and>
            co_CertGithubWorkflowSha co = CertGithubWorkflowSha c \<and>
            co_CertGithubWorkflowName co = CertGithubWorkflowName c \<and>
            co_CertGithubWorkflowRepository co = CertGithubWorkflowRepository c \<and>
            co_CertGithubWorkflowRef co = CertGithubWorkflowRef c)"
proof -
  have r: "list_all (\<lambda>ev. ev \<noteq> Call_Identities) (snd (resolveCheckOpts w c))"
    by (rule resolveCheckOpts_keyed_no_Identities [OF assms])
  have v: "list_all (\<lambda>ev. ev \<noteq> Call_Identities) (snd (verifyImages w c co fv images))" for co fv
    by (rule verifyImages_logs) simp_all
  have "list_all (\<lambda>ev. ev \<noteq> Call_Identities) (snd (Exec w c images))"
    unfolding Exec_def by (intro logs_intros r v) simp
  then have a: "Call_Identities \<notin> set (snd (Exec w c images))"
    by (auto simp: list_all_iff)
  have b: "co_Identities co = []" if ok: "fst (resolveCheckOpts w c) = Inr (co, fv)" for co fv
  proof -
    from resolveCheckOpts_InrD [OF ok] obtain identities opts co1 co2 co3 co4 co5 where
      s0: "fst (resolveIdentities w c) = Inr identities"
      and s1: "fst (loadTrustedMaterial w c (newCheckOpts c identities opts
              (if explicitOverride w c then None else fst (TrustedRoot w 0)))) = Inr co1"
      and s3: "fst (loadCTLogPubKeys w c co1) = Inr co2"
      and s4: "fst (loadTSACertificates w c co2) = Inr co3"
      and s5: "fst (loadRekor w c co3) = Inr co4"
      and s6: "fst (loadKeyless w c co4) = Inr co5"
      and s7: "fst (loadSigVerifier w c co5) = Inr co"
      by blast
    have "identities = []" using s0 assms by (simp add: resolveIdentities_def)
    then have "co_Identities co1 = []"
      using loadTrustedMaterial_frame [OF s1] by (simp add: newCheckOpts_def)
    then show ?thesis
      using loadCTLogPubKeys_frame [OF s3] loadTSACertificates_frame [OF s4]
        loadRekor_frame [OF s5] loadKeyless_frame [OF s6] loadSigVerifier_frame [OF s7]
      by simp
  qed
  show ?thesis using a b resolveCheckOpts_workflow [of w c] by blast
qed

text \<open>
  Claim C10 as stated fails for the workflow attributes: with the key reference
  \<open>cosign.pub\<close> and the workflow repository \<open>org/repo\<close> the resolved check options have an
  empty identity list, yet carry the repository constraint to the verification.
\<close>

theorem C10_counterexample:
  "KeyRef (c0\<lparr>KeyRef := ''cosign.pub'', CertGithubWorkflowRepository := ''org/repo''\<rparr>) \<noteq> [] \<and>
   map_sum id (\<lambda>(co, fv). (co_Identities co, co_CertGithubWorkflowRepository co))
     (fst (resolveCheckOpts w0
        (c0\<lparr>KeyRef := ''cosign.pub'', CertGithubWorkflowRepository := ''org/repo''\<rparr>)))
     = Inr ([], ''org/repo'')"
  by (simp add: resolve_defs w0_def c0_def)

lemma resolve_w0_key:
  "fst (resolveCheckOpts w0 (c0\<lparr>KeyRef := ''cosign.pub'', CertVerifyOptions := ''issuer=accounts.example.com'',
                                CertGithubWorkflowRef := ''refs/heads/main''\<rparr>)) =
     Inr (newCheckOpts (c0\<lparr>KeyRef := ''cosign.pub'', CertVerifyOptions := ''issuer=accounts.example.com'',
                            CertGithubWorkflowRef := ''refs/heads/main''\<rparr>) [] ''opts'' (Some ''tuf-bundle'')
            \<lparr>co_SigVerifier := Some ''verifier-of-cosign.pub''\<rparr>, False)"
  by (simp add: resolve_defs w0_def c0_def)

theorem C10_witness:
  "Call_Identities \<notin> set (snd (Exec w0
      (c0\<lparr>KeyRef := ''cosign.pub'', CertVerifyOptions := ''issuer=accounts.example.com'',
           CertGithubWorkflowRef := ''refs/heads/main''\<rparr>) [''img:v1''])) \<and>
   co_Identities (fst (projr (fst (resolveCheckOpts w0
      (c0\<lparr>KeyRef := ''cosign.pub'', CertVerifyOptions := ''issuer=accounts.example.com'',
           CertGithubWorkflowRef := ''refs/heads/main''\<rparr>))))) = [] \<and>
   co_CertGithubWorkflowRef (fst (projr (fst (resolveCheckOpts w0
      (c0\<lparr>KeyRef := ''cosign.pub'', CertVerifyOptions := ''issuer=accounts.example.com'',
           CertGithubWorkflowRef := ''refs/heads/main''\<rparr>))))) = ''refs/heads/main''"
proof -
  let ?c = "c0\<lparr>KeyRef := ''cosign.pub'', CertVerifyOptions := ''issuer=accounts.example.com'',
                CertGithubWorkflowRef := ''refs/heads/main''\<rparr>"
  let ?co = "newCheckOpts ?c [] ''opts'' (Some ''tuf-bundle'')\<lparr>co_SigVerifier := Some ''verifier-of-cosign.pub''\<rparr>"
  have k: "KeyRef ?c \<noteq> []" by simp
  note th = C10_amended [OF k, of w0 "[''img:v1'']"]
  from th have a: "Call_Identities \<notin> set (snd (Exec w0 ?c [''img:v1'']))" by (rule conjunct1)
  from th [THEN conjunct2, THEN spec, THEN spec, THEN mp, OF resolve_w0_key]
  have "co_Identities ?co = []" and "co_CertGithubWorkflowRef ?co = CertGithubWorkflowRef ?c"
    by simp_all
  then have "co_Identities (fst (projr (fst (resolveCheckOpts w0 ?c)))) = []"
    and "co_CertGithubWorkflowRef (fst (projr (fst (resolveCheckOpts w0 ?c)))) = ''refs/heads/main''"
    by (simp_all add: resolve_w0_key)
  with a show ?thesis by (intro conjI)
qed

section \<open>The flag fulcioVerified\<close>

text \<open>
  Claim C9, as amended. After a successful resolution \<open>fulcioVerified\<close> is true exactly
  when no signature verifier was set up front, that is when none of a key reference, a
  security key and a certificate reference was given; every verification header of the
  run prints that value. A key or a security key makes it false, and so does a certificate
  reference, whose verifier is built from the referenced certificate.
\<close>

theorem C9_amended:
  assumes ok: "fst (resolveCheckOpts w c) = Inr (co, fv)"
  shows "fv = (co_SigVerifier co = None) \<and>
         fv = (KeyRef c = [] \<and> \<not> Sk c \<and> CertRef c = []) \<and>
         (\<forall>i b f. PrintVerificationHeader i b f \<in> set (snd (Exec w c images)) \<longrightarrow> f = fv)"
proof -
  from resolveCheckOpts_InrD [OF ok] obtain identities opts co1 co2 co3 co4 co5 where
    s1: "fst (loadTrustedMaterial w c (newCheckOpts c identities opts
            (if explicitOverride w c then None else fst (TrustedRoot w 0)))) = Inr co1"
    and s3: "fst (loadCTLogPubKeys w c co1) = Inr co2"
    and s4: "fst (loadTSACertificates w c co2) = Inr co3"
    and s5: "fst (loadRekor w c co3) = Inr co4"
    and s6: "fst (loadKeyless w c co4) = Inr co5"
    and s7: "fst (loadSigVerifier w c co5) = Inr co"
    and fv: "fv = (co_SigVerifier co = None)"
    by blast
  have "co_SigVerifier co1 = None"
    using loadTrustedMaterial_frame [OF s1] by (simp add: newCheckOpts_def)
  then have "co_SigVerifier co5 = None"
    using loadCTLogPubKeys_frame [OF s3] loadTSACertificates_frame [OF s4]
      loadRekor_frame [OF s5] loadKeyless_frame [OF s6]
    by simp
  from loadSigVerifier_verifier [OF s7 this] fv
  have cfg: "fv = (KeyRef c = [] \<and> \<not> Sk c \<and> CertRef c = [])" by simp
  have hdr: "f = fv" if "PrintVerificationHeader i b f \<in> set (snd (Exec w c images))" for i b f
  proof -
    let ?P = "\<lambda>ev. \<forall>i b f. ev = PrintVerificationHeader i b f \<longrightarrow> f = fv"
    have r: "list_all ?P (snd (resolveCheckOpts w c))"
      using resolveCheckOpts_no_artifact [of w c]
      by (auto simp: list_all_iff artifactEvent_def)
    have v: "list_all ?P (snd (verifyImages w c co fv images))"
      by (rule verifyImages_logs) simp_all
    have "Exec w c images =
            (if length images = 0 then fail ErrHelp
             else (fst (verifyImages w c co fv images),
                   snd (resolveCheckOpts w c) @ snd (verifyImages w c co fv images)))"
      using ok by (simp add: Exec_def bnd_succeeds)
    then have "list_all ?P (snd (Exec w c images))"
      using r v by simp
    with that show ?thesis by (auto simp: list_all_iff)
  qed
  show ?thesis using fv cfg hdr by blast
qed

text \<open>
  Claim C9 as stated fails: with a certificate reference and neither a key nor a security
  key the trust anchor is a certificate, yet the header is printed with \<open>fulcioVerified\<close>
  false (its last argument).
\<close>

theorem C9_counterexample:
  "KeyRef (c0\<lparr>CertRef := ''cert.pem''\<rparr>) = [] \<and> \<not> Sk (c0\<lparr>CertRef := ''cert.pem''\<rparr>) \<and>
   Exec w0 (c0\<lparr>CertRef := ''cert.pem''\<rparr>) [''img:v1''] =
     (Inr (),
      [Call_Identities, Call_ClientOpts, Call_TrustedRoot, Call_TrustedRoot,
       Call_loadCertFromFileOrURL ''cert.pem'', Call_ValidateAndUnpackCert ''cert.pem'',
       Call_ParseReference ''img:v1'', Call_VerifyImageAttestations ''img:v1'',
       Call_AttestationToPayloadJSON [] ''att-a'', Call_AttestationToPayloadJSON [] ''att-b'',
       PrintVerificationHeader ''img:v1'' False False, PrintVerification [''att-a'', ''att-b'']])"
  by (simp add: resolve_defs loop_defs w0_def c0_def)

lemma resolve_w0_c0:
  "fst (resolveCheckOpts w0 c0) = Inr (newCheckOpts c0 [''id''] ''opts'' (Some ''tuf-bundle''), True)"
  by (simp add: resolve_defs w0_def c0_def)

theorem C9_witness:
  "PrintVerificationHeader ''img:v1'' False True \<in> set (snd (Exec w0 c0 [''img:v1''])) \<and>
   KeyRef c0 = [] \<and> \<not> Sk c0 \<and> CertRef c0 = []"
proof -
  have "PrintVerificationHeader ''img:v1'' False True \<in> set (snd (Exec w0 c0 [''img:v1'']))"
    by (simp add: resolve_defs loop_defs w0_def c0_def)
  with C9_amended [OF resolve_w0_c0, of "[''img:v1'']"] show ?thesis by blast
qed

section \<open>The new bundle format\<close>

lemma resolveCheckOpts_reaches_bundle_check:
  assumes nokeyclash: "\<not> (KeyRef c \<noteq> [] \<and> Sk c)"
    and ids: "KeyRef c = [] \<longrightarrow> \<not> isl (Identities w (CertVerifyOptions c))"
    and opts: "\<not> isl (ClientOpts w (RegistryOptions c))"
    and tm: "fst (loadTrustedMaterial w c (newCheckOpts c (projr (fst (resolveIdentities w c)))
               (projr (ClientOpts w (RegistryOptions c)))
               (if explicitOverride w c then None else fst (TrustedRoot w 0)))) = Inr co1"
    and chk: "fst (checkNewBundleFormat c co1) = Inl e"
  shows "fst (resolveCheckOpts w c) = Inl e"
proof -
  obtain ro where ro: "ClientOpts w (RegistryOptions c) = Inr ro"
    using opts by (cases "ClientOpts w (RegistryOptions c)") auto
  have "\<exists>ids'. fst (resolveIdentities w c) = Inr ids'"
    using ids by (cases "Identities w (CertVerifyOptions c)") (auto simp: resolveIdentities_def)
  then obtain ids' where ids': "fst (resolveIdentities w c) = Inr ids'" by blast
  have nof: "\<not> 1 < NOf [KeyRef c \<noteq> [], Sk c]"
    using nokeyclash by (auto simp: NOf_def)
  have f: "fst (fetchTrustedRoot w 0) = Inr (fst (TrustedRoot w 0))"
    by (simp add: fetchTrustedRoot_def split: option.splits)
  show ?thesis
    using nof ids' ro f tm chk
    by (simp add: resolveCheckOpts_def bnd_def)
qed

lemma loadTrustedMaterial_no_root:
  assumes "TrustedRootPath c = []"
    and "explicitOverride w c \<or> fst (TrustedRoot w 1) = None"
    and "explicitOverride w c \<longrightarrow> co_TrustedMaterial co = None"
  shows "\<exists>co1. fst (loadTrustedMaterial w c co) = Inr co1 \<and> co_TrustedMaterial co1 = None"
  using assms
  by (auto simp: loadTrustedMaterial_def noExplicitOverride_iff fetchTrustedRoot_def bnd_def
           split: option.splits)

lemma checkNewBundleFormat_no_root:
  assumes "NewBundleFormat c" "co_TrustedMaterial co = None"
  shows "isl (fst (checkNewBundleFormat c co))"
  using assms by (simp add: checkNewBundleFormat_def split: option.splits)

lemma resolveCheckOpts_fails_no_root:
  assumes nbf: "NewBundleFormat c"
    and nopath: "TrustedRootPath c = []"
    and noroot: "explicitOverride w c \<or> fst (TrustedRoot w 1) = None"
  shows "isl (fst (resolveCheckOpts w c))"
proof -
  have step: "isl (fst (bnd (loadTrustedMaterial w c
                 (newCheckOpts c identities opts (if explicitOverride w c then None else tm)))
               (\<lambda>co. bnd (checkNewBundleFormat c co) (g co))))"
    for identities opts tm and g :: "CheckOpts \<Rightarrow> unit \<Rightarrow> (CheckOpts \<times> bool) io"
  proof -
    have "explicitOverride w c \<longrightarrow>
            co_TrustedMaterial (newCheckOpts c identities opts
              (if explicitOverride w c then None else tm)) = None"
      by (simp add: newCheckOpts_def)
    from loadTrustedMaterial_no_root [OF nopath noroot this] obtain co1 where
      "fst (loadTrustedMaterial w c
              (newCheckOpts c identities opts (if explicitOverride w c then None else tm))) = Inr co1"
      "co_TrustedMaterial co1 = None" by blast
    then show ?thesis
      using checkNewBundleFormat_no_root [OF nbf, of co1]
      by (auto simp: isl_fst_bnd)
  qed
  show ?thesis
    unfolding resolveCheckOpts_def
    by (auto intro!: isl_bnd_always step)
qed

text \<open>
  Claim C6. With the new bundle format, no trusted-root path, and no trust root loaded
  otherwise (an environment override suppresses the fetch, or the fetch returns none), the
  run always fails and never reaches an artifact. When the steps before the check succeed
  and the options are supported, the error is the one of line 158.
\<close>

theorem C6_missing_trust_root:
  assumes nbf: "NewBundleFormat c"
    and nopath: "TrustedRootPath c = []"
    and noroot: "explicitOverride w c \<or> fst (TrustedRoot w 1) = None"
  shows "isl (fst (Exec w c images)) \<and>
         list_all (\<lambda>ev. \<not> artifactEvent ev) (snd (Exec w c images)) \<and>
         (\<not> (KeyRef c \<noteq> [] \<and> Sk c) \<and>
          (KeyRef c = [] \<longrightarrow> \<not> isl (Identities w (CertVerifyOptions c))) \<and>
          \<not> isl (ClientOpts w (RegistryOptions c)) \<and>
          checkSigstoreBundleUnsupportedOptions c = None \<longrightarrow>
            fst (resolveCheckOpts w c) =
              Inl (Errorf ''trusted root is required when using new bundle format'') \<and>
            (images \<noteq> [] \<longrightarrow>
               fst (Exec w c images) =
                 Inl (Errorf ''trusted root is required when using new bundle format'')))"
proof -
  have fails: "isl (fst (resolveCheckOpts w c))"
    by (rule resolveCheckOpts_fails_no_root [OF nbf nopath noroot])
  have a: "isl (fst (Exec w c images))"
    by (rule Exec_fails_if_unresolved [OF fails])
  have b: "list_all (\<lambda>ev. \<not> artifactEvent ev) (snd (Exec w c images))"
    by (rule Exec_no_artifact_if_unresolved [OF fails])
  have d: "fst (resolveCheckOpts w c) =
              Inl (Errorf ''trusted root is required when using new bundle format'') \<and>
            (images \<noteq> [] \<longrightarrow>
               fst (Exec w c images) =
                 Inl (Errorf ''trusted root is required when using new bundle format''))"
    if nk: "\<not> (KeyRef c \<noteq> [] \<and> Sk c)"
      and ids: "KeyRef c = [] \<longrightarrow> \<not> isl (Identities w (CertVerifyOptions c))"
      and opts: "\<not> isl (ClientOpts w (RegistryOptions c))"
      and sup: "checkSigstoreBundleUnsupportedOptions c = None"
  proof -
    let ?co = "newCheckOpts c (projr (fst (resolveIdentities w c)))
               (projr (ClientOpts w (RegistryOptions c)))
               (if explicitOverride w c then None else fst (TrustedRoot w 0))"
    have "explicitOverride w c \<longrightarrow> co_TrustedMaterial ?co = None"
      by (simp add: newCheckOpts_def)
    from loadTrustedMaterial_no_root [OF nopath noroot this] obtain co1 where
      co1: "fst (loadTrustedMaterial w c ?co) = Inr co1" "co_TrustedMaterial co1 = None"
      by blast
    have "fst (checkNewBundleFormat c co1) =
            Inl (Errorf ''trusted root is required when using new bundle format'')"
      using nbf sup co1(2) by (simp add: checkNewBundleFormat_def)
    from resolveCheckOpts_reaches_bundle_check [OF nk ids opts co1(1) this]
    have r: "fst (resolveCheckOpts w c) =
               Inl (Errorf ''trusted root is required when using new bundle format'')" .
    then show ?thesis by (simp add: Exec_def bnd_fails)
  qed
  show ?thesis using a b d by blast
qed

theorem C6_witness:
  "fst (Exec (w0\<lparr>TrustedRoot := (\<lambda>_. (None, Some (Collaborator ''tuf: no network'')))\<rparr>)
          (c0\<lparr>NewBundleFormat := True\<rparr>) [''img:v1'']) =
     Inl (Errorf ''trusted root is required when using new bundle format'')"
proof -
  let ?w = "w0\<lparr>TrustedRoot := (\<lambda>_. (None, Some (Collaborator ''tuf: no network'')))\<rparr>"
  let ?c = "c0\<lparr>NewBundleFormat := True\<rparr>"
  have 1: "NewBundleFormat ?c" by simp
  have 2: "TrustedRootPath ?c = []" by (simp add: c0_def)
  have 3: "explicitOverride ?w ?c \<or> fst (TrustedRoot ?w 1) = None" by simp
  have 4: "\<not> (KeyRef ?c \<noteq> [] \<and> Sk ?c)" by (simp add: c0_def)
  have 5: "KeyRef ?c = [] \<longrightarrow> \<not> isl (Identities ?w (CertVerifyOptions ?c))" by (simp add: w0_def)
  have 6: "\<not> isl (ClientOpts ?w (RegistryOptions ?c))" by (simp add: w0_def)
  have 7: "checkSigstoreBundleUnsupportedOptions ?c = None"
    by (simp add: checkSigstoreBundleUnsupportedOptions_def c0_def)
  from C6_missing_trust_root [OF 1 2 3, of "[''img:v1'']"] 4 5 6 7 show ?thesis by blast
qed

lemma resolveCheckOpts_fails_unsupported:
  assumes nbf: "NewBundleFormat c"
    and unsup: "checkSigstoreBundleUnsupportedOptions c = Some e"
  shows "isl (fst (resolveCheckOpts w c))"
proof -
  have step: "isl (fst (bnd (checkNewBundleFormat c co) g))"
    for co and g :: "unit \<Rightarrow> (CheckOpts \<times> bool) io"
    using nbf unsup by (simp add: checkNewBundleFormat_def isl_fst_bnd)
  show ?thesis
    unfolding resolveCheckOpts_def
    by (auto intro!: isl_bnd_always step)
qed

lemma loadTrustedMaterial_succeeds:
  assumes "TrustedRootPath c \<noteq> [] \<longrightarrow> \<not> isl (NewTrustedRootFromPath w (TrustedRootPath c))"
  shows "\<exists>co1. fst (loadTrustedMaterial w c co) = Inr co1"
  using assms
  by (cases "NewTrustedRootFromPath w (TrustedRootPath c)")
     (auto simp: loadTrustedMaterial_def fetchTrustedRoot_def bnd_def split: option.splits)

text \<open>
  Claim C7. With the new bundle format and one of the forbidden options set, the check
  returns the error that names the first of them in the order certificate, certificate
  chain, CA roots or intermediates, TSA chain path; the run fails in every case and never
  reaches an artifact, which covers a certificate reference together with the bundle
  format. When the steps before the check succeed, that error is what the resolution
  returns.
\<close>

theorem C7_unsupported_options:
  assumes nbf: "NewBundleFormat c"
    and forbidden: "CertRef c \<noteq> [] \<or> CertChain c \<noteq> [] \<or> CARoots c \<noteq> [] \<or>
                    CAIntermediates c \<noteq> [] \<or> TSACertChainPath c \<noteq> []"
  shows "(CertRef c \<noteq> [] \<longrightarrow>
            checkSigstoreBundleUnsupportedOptions c = Some (Errorf
              ''unsupported: certificate may not be provided using --certificate when using --new-bundle-format (cert must be in bundle)'')) \<and>
         (CertRef c = [] \<and> CertChain c \<noteq> [] \<longrightarrow>
            checkSigstoreBundleUnsupportedOptions c = Some (Errorf
              ''unsupported: certificate chain may not be provided using --certificate-chain when using --new-bundle-format (cert must be in bundle)'')) \<and>
         (CertRef c = [] \<and> CertChain c = [] \<and> (CARoots c \<noteq> [] \<or> CAIntermediates c \<noteq> []) \<longrightarrow>
            checkSigstoreBundleUnsupportedOptions c = Some (Errorf
              ''unsupported: CA roots/intermediates must be provided using --trusted-root when using --new-bundle-format'')) \<and>
         (CertRef c = [] \<and> CertChain c = [] \<and> CARoots c = [] \<and> CAIntermediates c = [] \<longrightarrow>
            checkSigstoreBundleUnsupportedOptions c = Some (Errorf
              ''unsupported: TSA certificate chain path may only be provided using --trusted-root when using --new-bundle-format'')) \<and>
         isl (fst (Exec w c images)) \<and>
         list_all (\<lambda>ev. \<not> artifactEvent ev) (snd (Exec w c images)) \<and>
         (\<not> (KeyRef c \<noteq> [] \<and> Sk c) \<and>
          (KeyRef c = [] \<longrightarrow> \<not> isl (Identities w (CertVerifyOptions c))) \<and>
          \<not> isl (ClientOpts w (RegistryOptions c)) \<and>
          (TrustedRootPath c \<noteq> [] \<longrightarrow> \<not> isl (NewTrustedRootFromPath w (TrustedRootPath c))) \<longrightarrow>
            (\<exists>e. checkSigstoreBundleUnsupportedOptions c = Some e \<and>
               fst (resolveCheckOpts w c) = Inl e \<and>
               (images \<noteq> [] \<longrightarrow> fst (Exec w c images) = Inl e)))"
    (is "?M1 \<and> ?M2 \<and> ?M3 \<and> ?M4 \<and> ?F \<and> ?N \<and> ?R")
proof -
  have m1: ?M1 by (simp add: checkSigstoreBundleUnsupportedOptions_def)
  have m2: ?M2 by (simp add: checkSigstoreBundleUnsupportedOptions_def)
  have m3: ?M3 by (simp add: checkSigstoreBundleUnsupportedOptions_def)
  have m4: ?M4 using forbidden by (simp add: checkSigstoreBundleUnsupportedOptions_def)
  have "checkSigstoreBundleUnsupportedOptions c \<noteq> None"
    using forbidden by (simp add: checkSigstoreBundleUnsupportedOptions_def)
  then obtain e where e: "checkSigstoreBundleUnsupportedOptions c = Some e"
    by (cases "checkSigstoreBundleUnsupportedOptions c") simp_all
  have fails: "isl (fst (resolveCheckOpts w c))"
    by (rule resolveCheckOpts_fails_unsupported [OF nbf e])
  have f: ?F
    by (rule Exec_fails_if_unresolved [OF fails])
  have n: ?N
    by (rule Exec_no_artifact_if_unresolved [OF fails])
  have r: ?R
  proof (intro impI, elim conjE)
    assume nk: "\<not> (KeyRef c \<noteq> [] \<and> Sk c)"
      and ids: "KeyRef c = [] \<longrightarrow> \<not> isl (Identities w (CertVerifyOptions c))"
      and opts: "\<not> isl (ClientOpts w (RegistryOptions c))"
      and path: "TrustedRootPath c \<noteq> [] \<longrightarrow> \<not> isl (NewTrustedRootFromPath w (TrustedRootPath c))"
    let ?co = "newCheckOpts c (projr (fst (resolveIdentities w c)))
               (projr (ClientOpts w (RegistryOptions c)))
               (if explicitOverride w c then None else fst (TrustedRoot w 0))"
    from loadTrustedMaterial_succeeds [OF path] obtain co1 where
      co1: "fst (loadTrustedMaterial w c ?co) = Inr co1" by blast
    have "fst (checkNewBundleFormat c co1) = Inl e"
      using nbf e by (simp add: checkNewBundleFormat_def)
    from resolveCheckOpts_reaches_bundle_check [OF nk ids opts co1 this]
    have r: "fst (resolveCheckOpts w c) = Inl e" .
    then have "images \<noteq> [] \<longrightarrow> fst (Exec w c images) = Inl e"
      by (simp add: Exec_def bnd_fails)
    with e r show "\<exists>e. checkSigstoreBundleUnsupportedOptions c = Some e \<and>
               fst (resolveCheckOpts w c) = Inl e \<and>
               (images \<noteq> [] \<longrightarrow> fst (Exec w c images) = Inl e)"
      by (intro exI [of _ e] conjI)
  qed
  show ?thesis by (intro conjI m1 m2 m3 m4 f n r)
qed

theorem C7_witness:
  "fst (Exec w0 (c0\<lparr>NewBundleFormat := True, TSACertChainPath := ''tsa.pem''\<rparr>) [''img:v1'']) =
     Inl (Errorf ''unsupported: TSA certificate chain path may only be provided using --trusted-root when using --new-bundle-format'')"
proof -
  let ?c = "c0\<lparr>NewBundleFormat := True, TSACertChainPath := ''tsa.pem''\<rparr>"
  have 1: "NewBundleFormat ?c" by simp
  have 2: "CertRef ?c \<noteq> [] \<or> CertChain ?c \<noteq> [] \<or> CARoots ?c \<noteq> [] \<or>
           CAIntermediates ?c \<noteq> [] \<or> TSACertChainPath ?c \<noteq> []" by simp
  have 3: "CertRef ?c = [] \<and> CertChain ?c = [] \<and> CARoots ?c = [] \<and> CAIntermediates ?c = []"
    by (simp add: c0_def)
  have 4: "\<not> (KeyRef ?c \<noteq> [] \<and> Sk ?c) \<and>
          (KeyRef ?c = [] \<longrightarrow> \<not> isl (Identities w0 (CertVerifyOptions ?c))) \<and>
          \<not> isl (ClientOpts w0 (RegistryOptions ?c)) \<and>
          (TrustedRootPath ?c \<noteq> [] \<longrightarrow> \<not> isl (NewTrustedRootFromPath w0 (TrustedRootPath ?c)))"
    by (simp add: c0_def w0_def)
  note th = C7_unsupported_options [OF 1 2, of w0 "[''img:v1'']"]
  note m4 = th [THEN conjunct2, THEN conjunct2, THEN conjunct2, THEN conjunct1]
  note r = th [THEN conjunct2, THEN conjunct2, THEN conjunct2, THEN conjunct2,
               THEN conjunct2, THEN conjunct2]
  have m: "checkSigstoreBundleUnsupportedOptions ?c = Some (Errorf
      ''unsupported: TSA certificate chain path may only be provided using --trusted-root when using --new-bundle-format'')"
    by (rule mp [OF m4 3])
  from mp [OF r 4] obtain e where "checkSigstoreBundleUnsupportedOptions ?c = Some e"
    "fst (Exec w0 ?c [''img:v1'']) = Inl e" by blast
  with m show ?thesis by simp
qed

section \<open>The loop over the image references\<close>

lemma partitionPolicies_invalid:
  assumes "\<exists>policy \<in> set policies. Ext policy \<noteq> ''.cue'' \<and> Ext policy \<noteq> ''.rego''"
  shows "partitionPolicies policies (cuePolicies, regoPolicies) =
           Inl (ErrorsNew ''invalid policy format, expected .cue or .rego'')"
  using assms
proof (induction policies arbitrary: cuePolicies regoPolicies)
  case Nil
  then show ?case by simp
next
  case (Cons policy rest)
  show ?case
  proof (cases "Ext policy = ''.rego'' \<or> Ext policy = ''.cue''")
    case True
    with Cons.prems have "\<exists>p \<in> set rest. Ext p \<noteq> ''.cue'' \<and> Ext p \<noteq> ''.rego''" by auto
    from Cons.IH [OF this] True show ?thesis by auto
  next
    case False
    then show ?thesis by simp
  qed
qed

lemma verifyImage_invalid_policy:
  assumes "\<exists>policy \<in> set (Policies c). Ext policy \<noteq> ''.cue'' \<and> Ext policy \<noteq> ''.rego''"
  shows "snd (verifyImage w c co fv imageRef) = snd (verifyAttestations w c co imageRef)"
    and "isl (fst (verifyImage w c co fv imageRef))"
    and "\<not> isl (fst (verifyAttestations w c co imageRef)) \<Longrightarrow>
           fst (verifyImage w c co fv imageRef) =
             Inl (ErrorsNew ''invalid policy format, expected .cue or .rego'')"
  using partitionPolicies_invalid [OF assms, of "[]" "[]"]
  by (cases "fst (verifyAttestations w c co imageRef)"; simp add: verifyImage_def bnd_def split: prod.splits)+

text \<open>
  Claim C8. With a policy whose extension is neither \<open>.cue\<close> nor \<open>.rego\<close> the partition of
  the policies is the format error and the run never succeeds. For a reference whose
  attestations were verified, the body of the loop returns that error having logged nothing
  after the verification: no payload is extracted, no policy is evaluated and nothing is
  printed; in a run whose resolution succeeded this ends the whole run at the first
  reference.
\<close>

theorem C8_invalid_policy_format:
  assumes bad: "\<exists>policy \<in> set (Policies c). Ext policy \<noteq> ''.cue'' \<and> Ext policy \<noteq> ''.rego''"
  shows "partitionPolicies (Policies c) ([], []) =
           Inl (ErrorsNew ''invalid policy format, expected .cue or .rego'') \<and>
         isl (fst (Exec w c images)) \<and>
         (fst (resolveCheckOpts w c) = Inr (co, fv) \<and>
          \<not> isl (fst (verifyAttestations w c co imageRef)) \<longrightarrow>
            Exec w c (imageRef # rest) =
              (Inl (ErrorsNew ''invalid policy format, expected .cue or .rego''),
               snd (resolveCheckOpts w c) @ snd (verifyAttestations w c co imageRef)))"
    (is "?A \<and> ?B \<and> ?C")
proof -
  have a: ?A by (rule partitionPolicies_invalid [OF bad])
  have b: ?B
  proof (cases images)
    case Nil
    then show ?thesis by (simp add: Exec_def)
  next
    case (Cons i rest')
    have "isl (fst (verifyImages w c co' fv' (i # rest')))" for co' fv'
      using verifyImage_invalid_policy(2) [OF bad, of w co' fv' i]
      by (simp add: isl_fst_bnd)
    then have "isl (fst (bnd (resolveCheckOpts w c)
                 (\<lambda>(co, fulcioVerified). verifyImages w c co fulcioVerified (i # rest'))))"
      by (intro isl_bnd_always) (simp add: split_beta del: verifyImages.simps)
    then show ?thesis
      by (simp add: Exec_def Cons del: verifyImages.simps)
  qed
  have c: ?C
  proof (intro impI, elim conjE)
    assume ok: "fst (resolveCheckOpts w c) = Inr (co, fv)"
      and ver: "\<not> isl (fst (verifyAttestations w c co imageRef))"
    have "verifyImage w c co fv imageRef =
            (Inl (ErrorsNew ''invalid policy format, expected .cue or .rego''),
             snd (verifyAttestations w c co imageRef))"
      using verifyImage_invalid_policy(1) [OF bad, of w co fv imageRef]
        verifyImage_invalid_policy(3) [OF bad ver, of fv]
      by (simp add: prod_eq_iff)
    then have "verifyImages w c co fv (imageRef # rest) =
            (Inl (ErrorsNew ''invalid policy format, expected .cue or .rego''),
             snd (verifyAttestations w c co imageRef))"
      by (simp add: bnd_fails)
    then show "Exec w c (imageRef # rest) =
              (Inl (ErrorsNew ''invalid policy format, expected .cue or .rego''),
               snd (resolveCheckOpts w c) @ snd (verifyAttestations w c co imageRef))"
      using ok by (simp add: Exec_def bnd_succeeds)
  qed
  show ?thesis by (intro conjI a b c)
qed

theorem C8_witness:
  "Exec w0 (c0\<lparr>Policies := [''policy.cue'', ''policy.yaml'']\<rparr>) [''img:v1'', ''img:v2''] =
     (Inl (ErrorsNew ''invalid policy format, expected .cue or .rego''),
      [Call_Identities, Call_ClientOpts, Call_TrustedRoot, Call_TrustedRoot,
       Call_ParseReference ''img:v1'', Call_VerifyImageAttestations ''img:v1''])"
proof -
  let ?c = "c0\<lparr>Policies := [''policy.cue'', ''policy.yaml'']\<rparr>"
  have bad: "\<exists>policy \<in> set (Policies ?c). Ext policy \<noteq> ''.cue'' \<and> Ext policy \<noteq> ''.rego''"
    by (simp add: Ext_def)
  have ok: "fst (resolveCheckOpts w0 ?c) = Inr (newCheckOpts ?c [''id''] ''opts'' (Some ''tuf-bundle''), True)"
    by (simp add: resolve_defs w0_def c0_def)
  have tr: "snd (resolveCheckOpts w0 ?c) = [Call_Identities, Call_ClientOpts, Call_TrustedRoot, Call_TrustedRoot]"
    by (simp add: resolve_defs w0_def c0_def)
  have ver: "verifyAttestations w0 ?c (newCheckOpts ?c [''id''] ''opts'' (Some ''tuf-bundle'')) ''img:v1'' =
       (Inr ([''att-a'', ''att-b''], False), [Call_ParseReference ''img:v1'', Call_VerifyImageAttestations ''img:v1''])"
    by (simp add: verifyAttestations_def w0_def c0_def)
  note th = C8_invalid_policy_format [OF bad, of w0 "[]" "newCheckOpts ?c [''id''] ''opts'' (Some ''tuf-bundle'')" True "''img:v1''" "[''img:v2'']"]
  from th [THEN conjunct2, THEN conjunct2] ok ver tr show ?thesis by simp
qed

lemma verifyImages_stops_at_failure:
  assumes "\<forall>i \<in> set pre. fst (verifyImage w c co fv i) = Inr ()"
    and "fst (verifyImage w c co fv imageRef) = Inl e"
  shows "verifyImages w c co fv (pre @ imageRef # post) =
           (Inl e, concat (map (\<lambda>i. snd (verifyImage w c co fv i)) (pre @ [imageRef])))"
  using assms
proof (induction pre)
  case Nil
  then show ?case by (simp add: bnd_fails)
next
  case (Cons i pre)
  then show ?case by (simp add: bnd_succeeds)
qed

text \<open>
  Claim C2, as amended. The references are processed in order against the same resolved
  options, and the first failure ends the run: the call returns that reference's error,
  the log holds what was done for the references before it (their results are already
  printed) and for the failing one, and nothing is done for any reference after it.
\<close>

theorem C2_amended:
  assumes ok: "fst (resolveCheckOpts w c) = Inr (co, fv)"
    and before: "\<forall>i \<in> set pre. fst (verifyImage w c co fv i) = Inr ()"
    and failure: "fst (verifyImage w c co fv imageRef) = Inl e"
  shows "Exec w c (pre @ imageRef # post) =
           (Inl e, snd (resolveCheckOpts w c) @
                   concat (map (\<lambda>i. snd (verifyImage w c co fv i)) (pre @ [imageRef])))"
  using ok verifyImages_stops_at_failure [OF before failure, of post]
  by (simp add: Exec_def bnd_succeeds)

text \<open>
  Claim C2 as stated fails: the reference \<open>img:v2\<close> verifies when it is run alone, but
  after a reference that cannot be parsed it is never processed and the run returns the
  parse error.
\<close>

theorem C2_counterexample:
  "Exec (w0\<lparr>ParseReference := (\<lambda>i _. if i = ''not a ref'' then Inl (Collaborator ''could not parse reference'') else Inr i)\<rparr>)
        c0 [''img:v2''] =
     (Inr (),
      [Call_Identities, Call_ClientOpts, Call_TrustedRoot, Call_TrustedRoot,
       Call_ParseReference ''img:v2'', Call_VerifyImageAttestations ''img:v2'',
       Call_AttestationToPayloadJSON [] ''att-a'', Call_AttestationToPayloadJSON [] ''att-b'',
       PrintVerificationHeader ''img:v2'' False True, PrintVerification [''att-a'', ''att-b'']]) \<and>
   Exec (w0\<lparr>ParseReference := (\<lambda>i _. if i = ''not a ref'' then Inl (Collaborator ''could not parse reference'') else Inr i)\<rparr>)
        c0 [''not a ref'', ''img:v2''] =
     (Inl (Collaborator ''could not parse reference''),
      [Call_Identities, Call_ClientOpts, Call_TrustedRoot, Call_TrustedRoot,
       Call_ParseReference ''not a ref''])"
  by (simp add: resolve_defs loop_defs w0_def c0_def)

theorem C2_witness:
  "Exec (w0\<lparr>ParseReference := (\<lambda>i _. if i = ''not a ref'' then Inl (Collaborator ''could not parse reference'') else Inr i)\<rparr>)
        c0 [''img:v1'', ''not a ref'', ''img:v2''] =
     (Inl (Collaborator ''could not parse reference''),
      [Call_Identities, Call_ClientOpts, Call_TrustedRoot, Call_TrustedRoot,
       Call_ParseReference ''img:v1'', Call_VerifyImageAttestations ''img:v1'',
       Call_AttestationToPayloadJSON [] ''att-a'', Call_AttestationToPayloadJSON [] ''att-b'',
       PrintVerificationHeader ''img:v1'' False True, PrintVerification [''att-a'', ''att-b''],
       Call_ParseReference ''not a ref''])"
proof -
  let ?w = "w0\<lparr>ParseReference := (\<lambda>i _. if i = ''not a ref'' then Inl (Collaborator ''could not parse reference'') else Inr i)\<rparr>"
  let ?co = "newCheckOpts c0 [''id''] ''opts'' (Some ''tuf-bundle'')"
  have ok: "fst (resolveCheckOpts ?w c0) = Inr (?co, True)"
    by (simp add: resolve_defs w0_def c0_def)
  have tr: "snd (resolveCheckOpts ?w c0) = [Call_Identities, Call_ClientOpts, Call_TrustedRoot, Call_TrustedRoot]"
    by (simp add: resolve_defs w0_def c0_def)
  have v1: "verifyImage ?w c0 ?co True ''img:v1'' =
      (Inr (), [Call_ParseReference ''img:v1'', Call_VerifyImageAttestations ''img:v1'',
       Call_AttestationToPayloadJSON [] ''att-a'', Call_AttestationToPayloadJSON [] ''att-b'',
       PrintVerificationHeader ''img:v1'' False True, PrintVerification [''att-a'', ''att-b'']])"
    by (simp add: loop_defs w0_def c0_def)
  have v2: "verifyImage ?w c0 ?co True ''not a ref'' =
      (Inl (Collaborator ''could not parse reference''), [Call_ParseReference ''not a ref''])"
    by (simp add: loop_defs w0_def c0_def)
  have before: "\<forall>i \<in> set [''img:v1'']. fst (verifyImage ?w c0 ?co True i) = Inr ()"
    using v1 by simp
  have failure: "fst (verifyImage ?w c0 ?co True ''not a ref'') = Inl (Collaborator ''could not parse reference'')"
    using v2 by simp
  from C2_amended [OF ok before failure, of "[''img:v2'']"] tr v1 v2 show ?thesis by simp
qed

section \<open>Predicate types\<close>

lemma checkAttestations_mismatch:
  assumes "map (AttestationToPayloadJSON w pt) verified = map (\<lambda>t. Inr ([], t)) observed"
  shows "checkAttestations w pt cuePolicies regoPolicies verified (checked, errs, types) =
           (Inr (checked, errs, types @ observed), map (Call_AttestationToPayloadJSON pt) verified)"
  using assms
proof (induction verified arbitrary: observed types)
  case Nil
  then show ?case by (simp add: ret_def)
next
  case (Cons vp verified)
  from Cons.prems obtain t rest where obs: "observed = t # rest"
    and vp: "AttestationToPayloadJSON w pt vp = Inr ([], t)"
    and rest: "map (AttestationToPayloadJSON w pt) verified = map (\<lambda>t. Inr ([], t)) rest"
    by (cases observed) auto
  have step: "checkAttestation w pt cuePolicies regoPolicies vp (checked, errs, types) =
                (Inr (checked, errs, types @ [t]), [Call_AttestationToPayloadJSON pt vp])"
    using vp by (simp add: checkAttestation_def ret_def)
  show ?case
    using Cons.IH [OF rest, of "types @ [t]"] step obs by simp
qed

lemma itoa_not_empty: "itoa n \<noteq> []"
  by (subst itoa.simps) simp

lemma digit_not_n: "d < 10 \<Longrightarrow> digit d \<noteq> CHR ''n''"
proof -
  assume "d < 10"
  then have "d \<in> {0, 1, 2, 3, 4, 5, 6, 7, 8, 9}" by auto
  then show ?thesis by (auto simp: digit_def)
qed

lemma itoa_examples: "itoa 2 = ''2''" "itoa 12 = ''12''"
  by (simp_all add: itoa.simps digit_def)

lemma hd_itoa: "hd (itoa n) \<noteq> CHR ''n''"
proof (induction n rule: itoa.induct)
  case (1 n)
  show ?case
  proof (cases "n < 10")
    case True
    then show ?thesis by (subst itoa.simps) (simp add: digit_not_n)
  next
    case False
    then have "hd (itoa n) = hd (itoa (n div 10))"
      by (subst itoa.simps) (simp add: itoa_not_empty)
    with 1 False show ?thesis by simp
  qed
qed

lemma mismatch_is_not_validation_error:
  "''none of the attestations matched the predicate type: '' @ rest \<noteq>
     itoa n @ '' validation errors occurred''"
proof
  assume "''none of the attestations matched the predicate type: '' @ rest =
     itoa n @ '' validation errors occurred''"
  then have "hd (''none of the attestations matched the predicate type: '' @ rest) =
     hd (itoa n @ '' validation errors occurred'')" by (rule arg_cong)
  then show False using hd_itoa [of n] itoa_not_empty [of n] by simp
qed

text \<open>
  Claim C5. When the attestations of a reference were verified, the policies have
  recognised extensions, and no attestation yields a payload for the requested predicate
  type, the body of the loop returns the error of line 372, which lists the predicate type
  found on every attestation, in order, joined by commas. Its message differs from the
  message of every policy-validation failure of line 368.
\<close>

theorem C5_predicate_type_mismatch:
  assumes verified: "fst (verifyAttestations w c co imageRef) = Inr (verified, bundleVerified)"
    and policies: "partitionPolicies (Policies c) ([], []) = Inr (cuePolicies, regoPolicies)"
    and mismatch: "map (AttestationToPayloadJSON w (PredicateType c)) verified =
                     map (\<lambda>t. Inr ([], t)) observed"
  shows "verifyImage w c co fv imageRef =
           (Inl (Errorf (''none of the attestations matched the predicate type: '' @ PredicateType c
                         @ '', found: '' @ Join observed '','')),
            snd (verifyAttestations w c co imageRef) @
            map (Call_AttestationToPayloadJSON (PredicateType c)) verified) \<and>
         (\<forall>n. Errorf (''none of the attestations matched the predicate type: '' @ PredicateType c
                         @ '', found: '' @ Join observed '','')
               \<noteq> Errorf (itoa n @ '' validation errors occurred''))"
proof -
  have loop: "checkAttestations w (PredicateType c) cuePolicies regoPolicies verified ([], [], []) =
           (Inr ([], [], observed), map (Call_AttestationToPayloadJSON (PredicateType c)) verified)"
    using checkAttestations_mismatch [OF mismatch, of cuePolicies regoPolicies "[]" "[]" "[]"]
    by simp
  have gate: "reportGate c imageRef bundleVerified fv ([], [], observed) =
          (Inl (Errorf (''none of the attestations matched the predicate type: '' @ PredicateType c
                         @ '', found: '' @ Join observed '','')), [])"
    by (simp add: reportGate_def fail_def)
  have "verifyImage w c co fv imageRef =
           (Inl (Errorf (''none of the attestations matched the predicate type: '' @ PredicateType c
                         @ '', found: '' @ Join observed '','')),
            snd (verifyAttestations w c co imageRef) @
            map (Call_AttestationToPayloadJSON (PredicateType c)) verified)"
    using verified policies loop gate
    by (simp add: verifyImage_def bnd_succeeds)
  moreover have "\<forall>n. Errorf (''none of the attestations matched the predicate type: '' @ PredicateType c
                         @ '', found: '' @ Join observed '','')
               \<noteq> Errorf (itoa n @ '' validation errors occurred'')"
    using mismatch_is_not_validation_error by simp
  ultimately show ?thesis by (rule conjI)
qed

theorem C5_witness:
  "verifyImage w0 (c0\<lparr>PredicateType := ''c''\<rparr>)
       (newCheckOpts (c0\<lparr>PredicateType := ''c''\<rparr>) [''id''] ''opts'' (Some ''tuf-bundle'')) True ''img:v1'' =
     (Inl (Errorf ''none of the attestations matched the predicate type: c, found: a,b''),
      [Call_ParseReference ''img:v1'', Call_VerifyImageAttestations ''img:v1'',
       Call_AttestationToPayloadJSON ''c'' ''att-a'', Call_AttestationToPayloadJSON ''c'' ''att-b''])"
proof -
  let ?c = "c0\<lparr>PredicateType := ''c''\<rparr>"
  let ?co = "newCheckOpts ?c [''id''] ''opts'' (Some ''tuf-bundle'')"
  have ver: "verifyAttestations w0 ?c ?co ''img:v1'' =
       (Inr ([''att-a'', ''att-b''], False), [Call_ParseReference ''img:v1'', Call_VerifyImageAttestations ''img:v1''])"
    by (simp add: verifyAttestations_def w0_def c0_def)
  then have 1: "fst (verifyAttestations w0 ?c ?co ''img:v1'') = Inr ([''att-a'', ''att-b''], False)"
    by simp
  have 2: "partitionPolicies (Policies ?c) ([], []) = Inr ([], [])" by (simp add: c0_def)
  have 3: "map (AttestationToPayloadJSON w0 (PredicateType ?c)) [''att-a'', ''att-b''] =
             map (\<lambda>t. Inr ([], t)) [''a'', ''b'']"
    by (simp add: w0_def)
  from C5_predicate_type_mismatch [OF 1 2 3, of True] ver show ?thesis by simp
qed

section \<open>The policy gate\<close>

lemma checkAttestation_step:
  assumes "fst (checkAttestation w pt cue rego vp (checked, errs, types)) = Inr st"
  shows "\<exists>t. checkAttestation w pt cue rego vp (checked, errs, types) =
           (Inr (checked @ (if accepted w pt cue rego vp then [vp] else []),
                 errs @ violations w pt cue rego vp, types @ [t]),
            gateEvents w pt cue rego vp)"
proof -
  from assms obtain payload t where att: "AttestationToPayloadJSON w pt vp = Inr (payload, t)"
    by (cases "AttestationToPayloadJSON w pt vp") (auto simp: checkAttestation_def)
  then have mp: "matchedPayload w pt vp = payload" by (simp add: matchedPayload_def)
  show ?thesis
  proof (cases "payload = []")
    case True
    then show ?thesis using att mp
      by (simp add: checkAttestation_def accepted_def violations_def gateEvents_def ret_def)
  next
    case False
    show ?thesis
    proof (cases "cue = []")
      case True
      then show ?thesis using att mp False
        by (cases "rego = []")
           (auto simp: checkAttestation_def accepted_def violations_def gateEvents_def ret_def
              passesCUE_def passesRego_def)
    next
      case cue: False
      show ?thesis
      proof (cases "cue_ValidateJSON w payload cue")
        case None
        then show ?thesis using att mp False cue
          by (cases "rego = []")
             (auto simp: checkAttestation_def accepted_def violations_def gateEvents_def ret_def
                passesCUE_def passesRego_def)
      next
        case (Some e)
        then show ?thesis using att mp False cue
          by (auto simp: checkAttestation_def accepted_def violations_def gateEvents_def ret_def
                passesCUE_def passesRego_def)
      qed
    qed
  qed
qed

lemma checkAttestations_run:
  assumes "fst (checkAttestations w pt cue rego verified (checked, errs, types)) = Inr (checked', errs', types')"
  shows "checked' = checked @ filter (accepted w pt cue rego) verified \<and>
         errs' = errs @ concat (map (violations w pt cue rego) verified) \<and>
         snd (checkAttestations w pt cue rego verified (checked, errs, types)) =
           concat (map (gateEvents w pt cue rego) verified)"
  using assms
proof (induction verified arbitrary: checked errs types)
  case Nil
  then show ?case by simp
next
  case (Cons vp verified)
  from Cons.prems obtain st where
    st: "fst (checkAttestation w pt cue rego vp (checked, errs, types)) = Inr st"
    by (auto simp: fst_bnd_Inr)
  from checkAttestation_step [OF st] obtain t where
    step: "checkAttestation w pt cue rego vp (checked, errs, types) =
           (Inr (checked @ (if accepted w pt cue rego vp then [vp] else []),
                 errs @ violations w pt cue rego vp, types @ [t]),
            gateEvents w pt cue rego vp)" by blast
  with Cons.prems have rest:
    "fst (checkAttestations w pt cue rego verified
            (checked @ (if accepted w pt cue rego vp then [vp] else []),
             errs @ violations w pt cue rego vp, types @ [t])) = Inr (checked', errs', types')"
    by simp
  from Cons.IH [OF rest] step show ?case by simp
qed

text \<open>
  Claim C3, as amended. In a loop over the verified attestations that runs to its end,
  every matched payload is evaluated against the CUE policies when there are any, and
  against the Rego policies, when there are any, exactly if it passed the CUE policies: a CUE
  failure skips the Rego evaluation of that payload. The errors of all payloads are
  collected before the gate reports them, and an attestation is accepted only if its
  payload passed both sets. With at least one error the gate logs their number and each of
  them and returns the error of line 368.
\<close>

theorem C3_amended:
  assumes finished: "fst (checkAttestations w pt cuePolicies regoPolicies verified ([], [], [])) =
                   Inr (checked, validationErrors, types)"
  shows "(\<forall>vp \<in> set verified. matchedPayload w pt vp \<noteq> [] \<and> cuePolicies \<noteq> [] \<longrightarrow>
            Call_cue_ValidateJSON (matchedPayload w pt vp) cuePolicies
              \<in> set (snd (checkAttestations w pt cuePolicies regoPolicies verified ([], [], [])))) \<and>
         (\<forall>vp \<in> set verified. matchedPayload w pt vp \<noteq> [] \<and> regoPolicies \<noteq> [] \<longrightarrow>
            (Call_rego_ValidateJSON (matchedPayload w pt vp) regoPolicies
               \<in> set (snd (checkAttestations w pt cuePolicies regoPolicies verified ([], [], [])))
             \<longleftrightarrow> passesCUE w cuePolicies (matchedPayload w pt vp))) \<and>
         checked = filter (accepted w pt cuePolicies regoPolicies) verified \<and>
         validationErrors = concat (map (violations w pt cuePolicies regoPolicies) verified) \<and>
         (validationErrors \<noteq> [] \<longrightarrow>
            reportGate c imageRef bundleVerified fv (checked, validationErrors, types) =
              (Inl (Errorf (itoa (length validationErrors) @ '' validation errors occurred'')),
               Infof_NumErrors (length validationErrors) # map Infof_Error validationErrors))"
    (is "?CUE \<and> ?REGO \<and> ?ACC \<and> ?ERRS \<and> ?GATE")
proof -
  note run = checkAttestations_run [OF finished]
  have tr: "snd (checkAttestations w pt cuePolicies regoPolicies verified ([], [], [])) =
              concat (map (gateEvents w pt cuePolicies regoPolicies) verified)"
    using run by simp
  have a: ?CUE
    unfolding tr by (auto simp: gateEvents_def Let_def)
  have b: ?REGO
    unfolding tr by (auto simp: gateEvents_def Let_def split: if_splits)
  have d: ?ACC using run by simp
  have e: ?ERRS using run by simp
  have g: ?GATE by (simp add: reportGate_def)
  show ?thesis by (intro conjI a b d e g)
qed

text \<open>
  Claim C3 as stated fails: with one CUE and one Rego policy, the payload of \<open>att-a\<close> fails
  the CUE policy and is never evaluated against the Rego policy, which would reject it
  too; the run reports two violations, not three.
\<close>

theorem C3_counterexample:
  "rego_ValidateJSON w1 ''payload-of-att-a'' [''q.rego''] = [Collaborator ''rego: denied''] \<and>
   Exec w1 (c0\<lparr>Policies := [''p.cue'', ''q.rego'']\<rparr>) [''img:v1''] =
     (Inl (Errorf ''2 validation errors occurred''),
      [Call_Identities, Call_ClientOpts, Call_TrustedRoot, Call_TrustedRoot,
       Call_ParseReference ''img:v1'', Call_VerifyImageAttestations ''img:v1'',
       Call_AttestationToPayloadJSON [] ''att-a'',
       Infof_CUE [''p.cue''], Call_cue_ValidateJSON ''payload-of-att-a'' [''p.cue''],
       Call_AttestationToPayloadJSON [] ''att-b'',
       Infof_CUE [''p.cue''], Call_cue_ValidateJSON ''payload-of-att-b'' [''p.cue''],
       Infof_Rego [''q.rego''], Call_rego_ValidateJSON ''payload-of-att-b'' [''q.rego''],
       Infof_NumErrors 2,
       Infof_Error (Collaborator ''cue: att-a rejected''),
       Infof_Error (Collaborator ''rego: denied'')])"
  by (simp add: resolve_defs loop_defs w1_def w0_def c0_def itoa.simps digit_def)

theorem C3_witness:
  "Call_rego_ValidateJSON ''payload-of-att-b'' [''q.rego'']
     \<in> set (snd (checkAttestations w1 [] [''p.cue''] [''q.rego''] [''att-a'', ''att-b''] ([], [], []))) \<and>
   Call_rego_ValidateJSON ''payload-of-att-a'' [''q.rego'']
     \<notin> set (snd (checkAttestations w1 [] [''p.cue''] [''q.rego''] [''att-a'', ''att-b''] ([], [], [])))"
proof -
  have fin: "fst (checkAttestations w1 [] [''p.cue''] [''q.rego''] [''att-a'', ''att-b''] ([], [], [])) =
               Inr ([], [Collaborator ''cue: att-a rejected'', Collaborator ''rego: denied''], [''a'', ''b''])"
    by (simp add: checkAttestation_def w1_def w0_def)
  have pa: "matchedPayload w1 [] ''att-a'' = ''payload-of-att-a''"
    and pb: "matchedPayload w1 [] ''att-b'' = ''payload-of-att-b''"
    by (simp_all add: matchedPayload_def w1_def w0_def)
  have ca: "\<not> passesCUE w1 [''p.cue''] ''payload-of-att-a''"
    and cb: "passesCUE w1 [''p.cue''] ''payload-of-att-b''"
    by (simp_all add: passesCUE_def w1_def w0_def)
  note th = C3_amended [OF fin, THEN conjunct2, THEN conjunct1]
  from th [THEN bspec, of "''att-b''"] pb cb
  have 1: "Call_rego_ValidateJSON ''payload-of-att-b'' [''q.rego'']
     \<in> set (snd (checkAttestations w1 [] [''p.cue''] [''q.rego''] [''att-a'', ''att-b''] ([], [], [])))"
    by simp
  from th [THEN bspec, of "''att-a''"] pa ca
  have 2: "Call_rego_ValidateJSON ''payload-of-att-a'' [''q.rego'']
     \<notin> set (snd (checkAttestations w1 [] [''p.cue''] [''q.rego''] [''att-a'', ''att-b''] ([], [], [])))"
    by simp
  from 1 2 show ?thesis by (rule conjI)
qed

end
